theory Spec2Isabelle
  imports Main "HOL-Library.AList"
begin

section \<open>Python strings and paths\<close>

text \<open>
  Python \<open>str\<close> values are modelled as \<open>string\<close> (lists of 8-bit characters; a character
  outside ASCII is the sequence of its UTF-8 bytes).  The character classes below are the
  ASCII part of Python's: a byte above 0x7F is neither a digit, nor a cased letter, nor
  white space here.
\<close>

definition is_digit :: "char \<Rightarrow> bool" where
  "is_digit c = (48 \<le> (of_char c :: nat) \<and> (of_char c :: nat) \<le> 57)"

definition is_space :: "char \<Rightarrow> bool" where
  "is_space c = ((9 \<le> (of_char c :: nat) \<and> (of_char c :: nat) \<le> 13)
                 \<or> (28 \<le> (of_char c :: nat) \<and> (of_char c :: nat) \<le> 32))"

definition char_lower :: "char \<Rightarrow> char" where
  "char_lower c = (if 65 \<le> (of_char c :: nat) \<and> (of_char c :: nat) \<le> 90
                   then char_of ((of_char c :: nat) + 32) else c)"

definition char_upper :: "char \<Rightarrow> char" where
  "char_upper c = (if 97 \<le> (of_char c :: nat) \<and> (of_char c :: nat) \<le> 122
                   then char_of ((of_char c :: nat) - 32) else c)"

definition py_lower :: "string \<Rightarrow> string" where
  "py_lower s = map char_lower s"

definition py_upper :: "string \<Rightarrow> string" where
  "py_upper s = map char_upper s"

text \<open>\<open>s.strip()\<close>: white space removed at both ends.\<close>

definition py_strip :: "string \<Rightarrow> string" where
  "py_strip s = rev (dropWhile is_space (rev (dropWhile is_space s)))"

text \<open>\<open>s.startswith(p)\<close>\<close>

fun startswith :: "string \<Rightarrow> string \<Rightarrow> bool" where
  "startswith s [] = True"
| "startswith [] (p # ps) = False"
| "startswith (c # cs) (p # ps) = (c = p \<and> startswith cs ps)"

text \<open>\<open>p in s\<close> on strings: \<open>p\<close> occurs in \<open>s\<close> as a contiguous substring.\<close>

fun contains :: "string \<Rightarrow> string \<Rightarrow> bool" where
  "contains [] p = (p = [])"
| "contains (c # cs) p = (startswith (c # cs) p \<or> contains cs p)"

text \<open>\<open>str(n)\<close> for integers: decimal digits, with a minus sign below zero.\<close>

fun str_of_nat :: "nat \<Rightarrow> string" where
  "str_of_nat n = (if n < 10 then [char_of (48 + n)]
                   else str_of_nat (n div 10) @ [char_of (48 + n mod 10)])"

definition str_of_int :: "int \<Rightarrow> string" where
  "str_of_int i = (if i < 0 then CHR ''-'' # str_of_nat (nat (- i)) else str_of_nat (nat i))"

text \<open>
  \<open>os.path.basename\<close>, \<open>os.path.splitext\<close> (POSIX flavour, separator \<open>/\<close>) and
  \<open>pathlib.Path.stem\<close>.  The extension starts at the last dot of the last path component,
  unless that component has only dots before it; leading dots of the component do not start
  an extension.
\<close>

definition basename :: "string \<Rightarrow> string" where
  "basename p = rev (takeWhile (\<lambda>c. c \<noteq> CHR ''/'') (rev p))"

definition splitext_ext :: "string \<Rightarrow> string" where
  "splitext_ext p =
     (let name = dropWhile (\<lambda>c. c = CHR ''.'') (basename p)
      in if CHR ''.'' \<in> set name
         then CHR ''.'' # rev (takeWhile (\<lambda>c. c \<noteq> CHR ''.'') (rev name))
         else [])"

definition path_stem :: "string \<Rightarrow> string" where
  "path_stem p =
     (let name = basename p;
          suffix = rev (takeWhile (\<lambda>c. c \<noteq> CHR ''.'') (rev name));
          i = length name - length suffix - 1
      in if CHR ''.'' \<in> set name \<and> 0 < i \<and> suffix \<noteq> [] then take i name else name)"

section \<open>Exceptions and Python values\<close>

text \<open>
  An exception of class \<open>Exception\<close> is a value carrying \<open>str(e)\<close>.  A function whose body
  can raise returns \<open>exn + 'a\<close>, with \<open>Inl\<close> for the raise.  \<open>KeyboardInterrupt\<close> and
  \<open>SystemExit\<close>, which \<open>except Exception\<close> does not catch, are outside the model.
\<close>

datatype exn = Exn string

fun str_exn :: "exn \<Rightarrow> string" where
  "str_exn (Exn m) = m"

text \<open>
  A value of an OCR result dictionary: a \<open>str\<close>, or any other Python object, of which only
  the type name matters.
\<close>

datatype ocr_val = OStr string | ONonStr string

text \<open>
  A cell of a data frame, a value of the extracted-aspects dictionary: a \<open>str\<close>, an
  \<open>int\<close>, the missing value \<open>NaN\<close>, or the metadata dictionary (file name, file type,
  processing date) that \<open>process_single_file\<close> stores among the aspects.
\<close>

datatype pyval = PStr string | PInt int | PNaN | PMeta string string string

section \<open>Claude\_as\_OCR\<close>

text \<open>What the module does to the outside world, in the order it does it.\<close>

datatype event =
    ClientInit
  | MessagesCreate string
  | ImportOCRCombined
  | ProviderCall string string
  | ExtractAspects string "string list" string
  | Mkdir string
  | WriteJson string "(string \<times> pyval) list"

text \<open>
  The collaborators of the module: the constructor \<open>AnthropicVertex(...)\<close> (\<open>Some e\<close> when it
  raises), \<open>client.messages.create\<close> (the texts of the content blocks of the reply, or an
  exception), the import of \<open>OCR_Combined\<close> and its three functions.
\<close>

record ocr_env =
  anthropic_vertex :: "exn option"
  messages_create :: "string \<Rightarrow> exn + string list"
  import_ocr_combined :: "exn option"
  process_png_file :: "string \<Rightarrow> exn + (string \<times> ocr_val) list"
  process_pdf_file :: "string \<Rightarrow> exn + (string \<times> ocr_val) list"
  process_docx_file :: "string \<Rightarrow> exn + (string \<times> ocr_val) list"

definition base_prompt :: string where
  "base_prompt =
        ''You are an expert OCR text optimizer. You've been given multiple text extractions from the same document, '' @ [CHR 0x0A] @
        ''each produced by a different OCR method. Your task is to create a single, optimized version that combines the best elements '' @ [CHR 0x0A] @
        ''from each extraction.'' @ [CHR 0x0A] @
        [CHR 0x0A] @
        ''Follow these guidelines:'' @ [CHR 0x0A] @
        ''1. Prioritize completeness - include all meaningful content from all versions'' @ [CHR 0x0A] @
        ''2. Fix obvious OCR errors (e.g., misrecognized characters, broken words)'' @ [CHR 0x0A] @
        ''3. Maintain the original document structure (paragraphs, lists, tables)'' @ [CHR 0x0A] @
        ''4. Preserve proper names, numbers, and technical terms accurately'' @ [CHR 0x0A] @
        ''5. If versions conflict, prefer the version that appears most grammatically and contextually correct'' @ [CHR 0x0A] @
        ''6. Remove any extraction artifacts or error messages that aren't part of the original document'' @ [CHR 0x0A] @
        ''7. For Hebrew text, ensure proper right-to-left formatting and character recognition'' @ [CHR 0x0A] @
        ''8. Pay special attention to numbers, dates, and other critical information'' @ [CHR 0x0A] @
        ''9. Maintain the original formatting as much as possible (bullet points, numbering, etc.)'' @ [CHR 0x0A] @
        ''10. If a section appears in one version but not others, include it if it seems legitimate'' @ [CHR 0x0A] @
        [CHR 0x0A]"

text \<open>
  \<open>if file_type:\<close> and \<open>if language:\<close> hold for a string that is neither \<open>None\<close> nor
  empty.
\<close>

definition prompt_header :: "string option \<Rightarrow> string option \<Rightarrow> string" where
  "prompt_header file_type language =
     base_prompt
     @ (case file_type of
          None \<Rightarrow> []
        | Some ft \<Rightarrow> if ft = [] then []
            else [CHR 0x0A] @ ''This text was extracted from a '' @ py_upper ft @ '' file. '')
     @ (case language of
          None \<Rightarrow> []
        | Some l \<Rightarrow> if l = [] then []
            else [CHR 0x0A] @ ''The primary language of the document is '' @ py_upper l @ ''. ''
                 @ (if py_lower l = ''hebrew''
                    then ''Pay special attention to right-to-left text direction and Hebrew characters. ''
                    else []))
     @ [CHR 0x0A, CHR 0x0A] @ ''Here are the different OCR extractions:'' @ [CHR 0x0A, CHR 0x0A]"

text \<open>The loop over \<open>ocr_results.items()\<close> that adds the extractions to the prompt.\<close>

fun add_ocr_results :: "string \<Rightarrow> (string \<times> ocr_val) list \<Rightarrow> string" where
  "add_ocr_results prompt [] = prompt"
| "add_ocr_results prompt ((method, OStr text) # rest) =
     (if \<not> startswith text ''Failed'' \<and> \<not> startswith text ''Error''
      then add_ocr_results
             (prompt @ ''--- '' @ method @ '' ---'' @ [CHR 0x0A] @ text @ [CHR 0x0A, CHR 0x0A]) rest
      else add_ocr_results prompt rest)"
| "add_ocr_results prompt ((method, ONonStr ty) # rest) = add_ocr_results prompt rest"

definition prompt_footer :: string where
  "prompt_footer = [CHR 0x0A] @ ''Please provide a single, optimized version of the text that combines the best elements from all extractions. Return ONLY the optimized text without any explanations or notes:''"

definition build_prompt :: "(string \<times> ocr_val) list \<Rightarrow> string option \<Rightarrow> string option \<Rightarrow> string" where
  "build_prompt ocr_results file_type language =
     add_ocr_results (prompt_header file_type language) ocr_results @ prompt_footer"

text \<open>The \<open>try\<close> block of \<open>combine_ocr_results\<close>; \<open>message.content[0]\<close> raises on an empty list.\<close>

definition combine_body ::
  "ocr_env \<Rightarrow> (string \<times> ocr_val) list \<Rightarrow> string option \<Rightarrow> string option
     \<Rightarrow> (exn + string) \<times> event list" where
  "combine_body env ocr_results file_type language =
     (case anthropic_vertex env of
        Some e \<Rightarrow> (Inl e, [ClientInit])
      | None \<Rightarrow>
          (let prompt = build_prompt ocr_results file_type language
           in case messages_create env prompt of
                Inl e \<Rightarrow> (Inl e, [ClientInit, MessagesCreate prompt])
              | Inr content \<Rightarrow>
                  (case content of
                     [] \<Rightarrow> (Inl (Exn ''list index out of range''), [ClientInit, MessagesCreate prompt])
                   | text # _ \<Rightarrow> (Inr text, [ClientInit, MessagesCreate prompt]))))"

text \<open>
  \<open>combine_ocr_results\<close> with its \<open>except Exception\<close> clause.  The result is kept as
  \<open>exn + string\<close>, so that "does not raise" is a statement about the function.
\<close>

definition combine_ocr_results ::
  "ocr_env \<Rightarrow> (string \<times> ocr_val) list \<Rightarrow> string option \<Rightarrow> string option
     \<Rightarrow> (exn + string) \<times> event list" where
  "combine_ocr_results env ocr_results file_type language =
     (case combine_body env ocr_results file_type language of
        (Inl e, evs) \<Rightarrow> (Inr (''Error combining OCR results with Claude: '' @ str_exn e), evs)
      | (Inr text, evs) \<Rightarrow> (Inr text, evs))"

text \<open>
  The language read from the \<open>Note\<close> entry of the results of a DOCX file;
  \<open>.lower()\<close> on a value that is not a string raises \<open>AttributeError\<close>.
\<close>

definition note_language :: "(string \<times> ocr_val) list \<Rightarrow> exn + string" where
  "note_language ocr_results =
     (case map_of ocr_results ''Note'' of
        None \<Rightarrow> Inr ''english''
      | Some (OStr s) \<Rightarrow> Inr (if contains (py_lower s) ''hebrew'' then ''hebrew'' else ''english'')
      | Some (ONonStr ty) \<Rightarrow>
          Inl (Exn ([CHR 0x27] @ ty @ [CHR 0x27] @ '' object has no attribute '' @ [CHR 0x27] @ ''lower'' @ [CHR 0x27])))"

text \<open>The loop that looks for the word "hebrew" in any string result.\<close>

fun mentions_hebrew :: "(string \<times> ocr_val) list \<Rightarrow> bool" where
  "mentions_hebrew [] = False"
| "mentions_hebrew ((key, OStr v) # rest) = (contains (py_lower v) ''hebrew'' \<or> mentions_hebrew rest)"
| "mentions_hebrew ((key, ONonStr ty) # rest) = mentions_hebrew rest"

text \<open>The second half of \<open>process_file_with_combined_ocr\<close>: language detection and fusion.\<close>

definition detect_and_combine ::
  "ocr_env \<Rightarrow> (string \<times> ocr_val) list \<Rightarrow> string \<Rightarrow> string option \<Rightarrow> event list
     \<Rightarrow> (exn + string) \<times> event list" where
  "detect_and_combine env ocr_results file_type language evs =
     (let language' = (case language of
                         Some l \<Rightarrow> l
                       | None \<Rightarrow> if mentions_hebrew ocr_results then ''hebrew'' else ''english'')
      in case combine_ocr_results env ocr_results (Some file_type) (Some language') of
           (r, evs') \<Rightarrow> (r, evs @ evs'))"

text \<open>
  The \<open>try\<close> block of \<open>process_file_with_combined_ocr\<close>.  \<open>not ocr_results\<close> holds for
  \<open>None\<close> and for the empty dictionary.
\<close>

definition process_file_body ::
  "ocr_env \<Rightarrow> string \<Rightarrow> (string \<times> ocr_val) list option \<Rightarrow> (exn + string) \<times> event list" where
  "process_file_body env file_path ocr_results =
     (let file_extension = splitext_ext file_path;
          file_type = filter (\<lambda>c. c \<noteq> CHR ''.'') (py_lower file_extension)
      in case ocr_results of
           Some (r # rs) \<Rightarrow> detect_and_combine env (r # rs) file_type None []
         | _ \<Rightarrow>
           (case import_ocr_combined env of
              Some e \<Rightarrow> (Inl e, [ImportOCRCombined])
            | None \<Rightarrow>
                if py_lower file_extension = ''.png'' then
                  (case process_png_file env file_path of
                     Inl e \<Rightarrow> (Inl e, [ImportOCRCombined, ProviderCall ''process_png_file'' file_path])
                   | Inr res \<Rightarrow>
                       detect_and_combine env res file_type None
                         [ImportOCRCombined, ProviderCall ''process_png_file'' file_path])
                else if py_lower file_extension = ''.pdf'' then
                  (case process_pdf_file env file_path of
                     Inl e \<Rightarrow> (Inl e, [ImportOCRCombined, ProviderCall ''process_pdf_file'' file_path])
                   | Inr res \<Rightarrow>
                       detect_and_combine env res file_type None
                         [ImportOCRCombined, ProviderCall ''process_pdf_file'' file_path])
                else if py_lower file_extension = ''.docx'' then
                  (case process_docx_file env file_path of
                     Inl e \<Rightarrow> (Inl e, [ImportOCRCombined, ProviderCall ''process_docx_file'' file_path])
                   | Inr res \<Rightarrow>
                       (case note_language res of
                          Inl e \<Rightarrow> (Inl e, [ImportOCRCombined, ProviderCall ''process_docx_file'' file_path])
                        | Inr l \<Rightarrow>
                            detect_and_combine env res file_type (Some l)
                              [ImportOCRCombined, ProviderCall ''process_docx_file'' file_path]))
                else (Inr (''Unsupported file type: '' @ file_extension), [ImportOCRCombined])))"

definition process_file_with_combined_ocr ::
  "ocr_env \<Rightarrow> string \<Rightarrow> (string \<times> ocr_val) list option \<Rightarrow> (exn + string) \<times> event list" where
  "process_file_with_combined_ocr env file_path ocr_results =
     (case process_file_body env file_path ocr_results of
        (Inl e, evs) \<Rightarrow> (Inr (''Error processing file with combined OCR: '' @ str_exn e), evs)
      | (Inr text, evs) \<Rightarrow> (Inr text, evs))"

section \<open>excel\_to\_concepts\<close>

text \<open>
  A sheet as \<open>xls.parse(sheet, header=None)\<close> reads it: its rows, each a list of cells; a
  row shorter than the sheet is wide has \<open>NaN\<close> in the cells it lacks.
\<close>

type_synonym sheet_rows = "pyval list list"

definition cell_at :: "pyval list \<Rightarrow> nat \<Rightarrow> pyval" where
  "cell_at row k = (if k < length row then row ! k else PNaN)"

definition sheet_width :: "sheet_rows \<Rightarrow> nat" where
  "sheet_width rows = fold (\<lambda>r w. max (length r) w) rows 0"

text \<open>\<open>df.dropna(how='all')\<close>: the rows that have a cell other than \<open>NaN\<close>.\<close>

definition dropna_all :: "sheet_rows \<Rightarrow> sheet_rows" where
  "dropna_all rows = filter (list_ex (\<lambda>c. c \<noteq> PNaN)) rows"

text \<open>
  \<open>astype(str)\<close> on one cell.  The text of the metadata dictionary is exact for field
  values without quotes, backslashes and control characters.
\<close>

definition meta_key :: string where
  "meta_key = [CHR 0xD7, CHR 0x9E, CHR 0xD7, CHR 0x98, CHR 0xD7, CHR 0x90, CHR 0x2D, CHR 0xD7, CHR 0xA0,
               CHR 0xD7, CHR 0xAA, CHR 0xD7, CHR 0x95, CHR 0xD7, CHR 0xA0, CHR 0xD7, CHR 0x99, CHR 0xD7, CHR 0x9D]"

definition meta_file_name :: string where
  "meta_file_name = [CHR 0xD7, CHR 0xA9, CHR 0xD7, CHR 0x9D, CHR 0x5F, CHR 0xD7, CHR 0xA7, CHR 0xD7, CHR 0x95,
                     CHR 0xD7, CHR 0x91, CHR 0xD7, CHR 0xA5]"

definition meta_file_type :: string where
  "meta_file_type = [CHR 0xD7, CHR 0xA1, CHR 0xD7, CHR 0x95, CHR 0xD7, CHR 0x92, CHR 0x5F, CHR 0xD7, CHR 0xA7,
                     CHR 0xD7, CHR 0x95, CHR 0xD7, CHR 0x91, CHR 0xD7, CHR 0xA5]"

definition meta_date :: string where
  "meta_date = [CHR 0xD7, CHR 0xAA, CHR 0xD7, CHR 0x90, CHR 0xD7, CHR 0xA8, CHR 0xD7, CHR 0x99, CHR 0xD7, CHR 0x9A,
                CHR 0x5F, CHR 0xD7, CHR 0xA2, CHR 0xD7, CHR 0x99, CHR 0xD7, CHR 0x91, CHR 0xD7, CHR 0x95, CHR 0xD7, CHR 0x93]"

definition py_repr :: "string \<Rightarrow> string" where
  "py_repr s = [CHR 0x27] @ s @ [CHR 0x27]"

fun astype_str :: "pyval \<Rightarrow> string" where
  "astype_str (PStr s) = s"
| "astype_str (PInt i) = str_of_int i"
| "astype_str PNaN = ''nan''"
| "astype_str (PMeta n t d) =
     ''{'' @ py_repr meta_file_name @ '': '' @ py_repr n @ '', ''
           @ py_repr meta_file_type @ '': '' @ py_repr t @ '', ''
           @ py_repr meta_date @ '': '' @ py_repr d @ ''}''"

text \<open>
  \<open>raw_ids.astype(int)\<close> succeeds when every identifier is an integer, and the identifiers
  are kept as they are when it raises.  (Floats and numeric strings, which the cast would
  also convert, are not among the cells of the model.)
\<close>

fun int_of_cell :: "pyval \<Rightarrow> int option" where
  "int_of_cell (PInt i) = Some i"
| "int_of_cell _ = None"

definition cast_ids :: "pyval list \<Rightarrow> pyval list" where
  "cast_ids raw_ids =
     (if list_all (\<lambda>c. int_of_cell c \<noteq> None) raw_ids
      then map (\<lambda>c. PInt (the (int_of_cell c))) raw_ids
      else raw_ids)"

text \<open>A concept \<open>{"id": i, "value": v}\<close> is the pair \<open>(i, v)\<close>.\<close>

type_synonym concept = "pyval \<times> string"

text \<open>
  \<open>[{"id": ids[i], "value": vals[i]} for i in range(min(len(ids), len(vals)))]\<close> is
  \<open>zip ids vals\<close>.
\<close>

definition sheet_pairs :: "sheet_rows \<Rightarrow> concept list option" where
  "sheet_pairs rows =
     (let width = sheet_width rows;
          df = dropna_all rows
      in if length df < 2 then None
         else
           (let data = tl df;
                raw_ids = (if width \<ge> 2 then map (\<lambda>r. cell_at r 0) data
                           else map (\<lambda>i. PInt (int i)) [0 ..< length data]);
                raw_vals = (if width \<ge> 2 then map (\<lambda>r. cell_at r 1) data
                            else map (\<lambda>r. cell_at r 0) data);
                ids = cast_ids raw_ids;
                vals = map (\<lambda>c. py_strip (astype_str c)) (filter (\<lambda>c. c \<noteq> PNaN) raw_vals)
            in Some (zip ids vals)))"

text \<open>
  The loop over the sheets, then the removal of the sheets whose list is empty.  The
  workbook is \<open>Inl e\<close> when \<open>pd.ExcelFile\<close> raises; the function then returns \<open>{}\<close>.
\<close>

fun parse_sheets :: "(string \<times> sheet_rows) list \<Rightarrow> (string \<times> concept list) list" where
  "parse_sheets [] = []"
| "parse_sheets ((sheet, rows) # rest) =
     (case sheet_pairs rows of
        None \<Rightarrow> parse_sheets rest
      | Some pairs \<Rightarrow> (sheet, pairs) # parse_sheets rest)"

definition excel_to_concept_mapping ::
  "exn + (string \<times> sheet_rows) list \<Rightarrow> (string \<times> concept list) list" where
  "excel_to_concept_mapping xls =
     (case xls of
        Inl e \<Rightarrow> []
      | Inr sheets \<Rightarrow> filter (\<lambda>(sheet, values). values \<noteq> []) (parse_sheets sheets))"

section \<open>Process\_files\<close>

subsection \<open>extract\_file\_id\<close>

text \<open>
  \<open>re.search(r'(\d+)', filename)\<close>: the leftmost match of a greedy, non-empty run of
  digits; \<open>match.group(1)\<close> is that run, and there is no match when the name has no
  digit.
\<close>

fun extract_file_id :: "string \<Rightarrow> string option" where
  "extract_file_id [] = None"
| "extract_file_id (c # cs) =
     (if is_digit c then Some (c # takeWhile is_digit cs) else extract_file_id cs)"

subsection \<open>process\_single\_file\<close>

text \<open>
  The collaborators of \<open>process_single_file\<close>: the OCR module, \<open>extract_aspects_with_claude\<close>
  (module \<open>Claude_extract_values\<close>), the clock, \<open>mkdir\<close> and the writing of the JSON file.
\<close>

record pipeline_env =
  ocr :: ocr_env
  extract_aspects_with_claude :: "string \<Rightarrow> string list \<Rightarrow> string \<Rightarrow> exn + (string \<times> pyval) list"
  now :: string
  mkdir :: "string \<Rightarrow> exn option"
  write_json :: "string \<Rightarrow> (string \<times> pyval) list \<Rightarrow> exn option"

record json_data =
  j_id :: string
  j_data :: "(string \<times> pyval) list"
  j_file_type :: string

text \<open>The concept values of all sheets, each once, in the order of their first occurrence.\<close>

fun add_concept_values :: "string list \<Rightarrow> concept list \<Rightarrow> string list" where
  "add_concept_values acc [] = acc"
| "add_concept_values acc (c # cs) =
     add_concept_values (if snd c \<in> set acc then acc else acc @ [snd c]) cs"

fun all_concept_values :: "string list \<Rightarrow> (string \<times> concept list) list \<Rightarrow> string list" where
  "all_concept_values acc [] = acc"
| "all_concept_values acc ((sheet, concepts) # rest) =
     all_concept_values (add_concept_values acc concepts) rest"

text \<open>
  The function returns its result (\<open>None\<close> for every skip and every caught exception)
  together with what it did to the outside world.
\<close>

definition process_single_file ::
  "pipeline_env \<Rightarrow> string \<Rightarrow> (string \<times> concept list) list \<Rightarrow> string
     \<Rightarrow> json_data option \<times> event list" where
  "process_single_file env file_path concept_mapping output_dir =
     (let file_name = basename file_path;
          file_id = extract_file_id file_name;
          file_extension = py_lower (splitext_ext file_path)
      in if file_extension \<notin> set [''.png'', ''.pdf'', ''.docx''] then (None, [])
         else
           (case file_id of
              None \<Rightarrow> (None, [])
            | Some fid \<Rightarrow>
                if fid = [] then (None, [])
                else
                  (case process_file_with_combined_ocr (ocr env) file_path None of
                     (Inl e, evs) \<Rightarrow> (None, evs)
                   | (Inr ocr_text, evs) \<Rightarrow>
                       (let values = all_concept_values [] concept_mapping;
                            doc_type = drop 1 file_extension;
                            evs1 = evs @ [ExtractAspects ocr_text values doc_type]
                        in case extract_aspects_with_claude env ocr_text values doc_type of
                             Inl e \<Rightarrow> (None, evs1)
                           | Inr extracted \<Rightarrow>
                               (let extracted_data =
                                      AList.update meta_key (PMeta file_name doc_type (now env)) extracted;
                                    evs2 = evs1 @ [Mkdir output_dir]
                                in case mkdir env output_dir of
                                     Some e \<Rightarrow> (None, evs2)
                                   | None \<Rightarrow>
                                       (let json_path = output_dir @ ''/'' @ path_stem file_path
                                                          @ ''_aspects.json'';
                                            evs3 = evs2 @ [WriteJson json_path extracted_data]
                                        in case write_json env json_path extracted_data of
                                             Some e \<Rightarrow> (None, evs3)
                                           | None \<Rightarrow>
                                               (Some \<lparr>j_id = fid, j_data = extracted_data,
                                                      j_file_type = doc_type\<rparr>, evs3)))))))"

subsection \<open>update\_excel\_with\_json\_data\<close>

text \<open>
  A data frame: its column names in order, and its rows.  A row is a dictionary from column
  name to cell; a column the row has no entry for holds \<open>NaN\<close>.  The store is the
  dictionary \<open>existing_data\<close> from sheet name to data frame, as read from and written to the
  workbook file; \<open>None\<close> is the store whose file does not exist.  Reading and writing the
  file are taken to succeed and to keep every cell as it is.
\<close>

record data_frame =
  columns :: "string list"
  rows :: "(string \<times> pyval) list list"

type_synonym store = "(string \<times> data_frame) list"

definition cell :: "(string \<times> pyval) list \<Rightarrow> string \<Rightarrow> pyval" where
  "cell row c = (case map_of row c of Some v \<Rightarrow> v | None \<Rightarrow> PNaN)"

text \<open>\<open>df['ID'].astype(str).tolist()\<close>\<close>

definition id_column :: "data_frame \<Rightarrow> string list" where
  "id_column df = map (\<lambda>r. astype_str (cell r ''ID'')) (rows df)"

text \<open>The row built for one sheet: the identity columns, then one entry per concept.\<close>

fun add_concepts ::
  "(string \<times> pyval) list \<Rightarrow> (string \<times> pyval) list \<Rightarrow> concept list \<Rightarrow> (string \<times> pyval) list" where
  "add_concepts extracted_data row [] = row"
| "add_concepts extracted_data row (c # cs) =
     add_concepts extracted_data
       (AList.update (snd c)
          (case map_of extracted_data (snd c) of Some v \<Rightarrow> v | None \<Rightarrow> PStr ''Not found'') row)
       cs"

definition build_row :: "json_data \<Rightarrow> concept list \<Rightarrow> (string \<times> pyval) list" where
  "build_row jd concepts =
     add_concepts (j_data jd) [(''ID'', PStr (j_id jd)), (''File Type'', PStr (j_file_type jd))] concepts"

text \<open>
  \<open>pd.concat([df, pd.DataFrame([row])], ignore_index=True)\<close>: the columns of the row that the
  frame does not have are added after the frame's own, and the row comes last.
\<close>

definition concat_row :: "data_frame \<Rightarrow> (string \<times> pyval) list \<Rightarrow> data_frame" where
  "concat_row df row =
     \<lparr>columns = columns df @ filter (\<lambda>k. k \<notin> set (columns df)) (map fst row),
      rows = rows df @ [row]\<rparr>"

text \<open>
  The index of the first row whose \<open>ID\<close>, as a string, is the incoming one
  (\<open>df.index[df['ID'].astype(str) == file_id].tolist()[0]\<close>).
\<close>

fun first_index :: "string list \<Rightarrow> string \<Rightarrow> nat" where
  "first_index [] x = 0"
| "first_index (y # ys) x = (if y = x then 0 else Suc (first_index ys x))"

text \<open>
  The loop \<open>for key, value in row.items(): if key in df.columns: df.at[idx, key] = value\<close>.
\<close>

fun overwrite_row ::
  "string list \<Rightarrow> (string \<times> pyval) list \<Rightarrow> (string \<times> pyval) list \<Rightarrow> (string \<times> pyval) list" where
  "overwrite_row cols old [] = old"
| "overwrite_row cols old ((key, v) # rest) =
     overwrite_row cols (if key \<in> set cols then AList.update key v old else old) rest"

definition upsert_sheet :: "string \<Rightarrow> (string \<times> pyval) list \<Rightarrow> data_frame \<Rightarrow> data_frame" where
  "upsert_sheet file_id row df =
     (if ''ID'' \<in> set (columns df) then
        (let existing_ids = id_column df
         in if file_id \<in> set existing_ids then
              (let idx = first_index existing_ids file_id
               in df\<lparr>rows := (rows df)[idx := overwrite_row (columns df) (rows df ! idx) row]\<rparr>)
            else concat_row df row)
      else concat_row df row)"

text \<open>The loop over the sheets of the concept mapping, on a store whose file exists.\<close>

fun update_sheets :: "json_data \<Rightarrow> (string \<times> concept list) list \<Rightarrow> store \<Rightarrow> store" where
  "update_sheets jd [] existing_data = existing_data"
| "update_sheets jd ((sheet_name, concepts) # rest) existing_data =
     (let df = (case map_of existing_data sheet_name of
                  Some d \<Rightarrow> d
                | None \<Rightarrow> \<lparr>columns = [''ID'', ''File Type''], rows = []\<rparr>)
      in update_sheets jd rest
           (AList.update sheet_name (upsert_sheet (j_id jd) (build_row jd concepts) df) existing_data))"

text \<open>The loop over the sheets when the file does not exist: one frame of one row per sheet.\<close>

fun new_sheets :: "json_data \<Rightarrow> (string \<times> concept list) list \<Rightarrow> store \<Rightarrow> store" where
  "new_sheets jd [] sheet_data = sheet_data"
| "new_sheets jd ((sheet_name, concepts) # rest) sheet_data =
     new_sheets jd rest
       (AList.update sheet_name
          \<lparr>columns = map fst (build_row jd concepts), rows = [build_row jd concepts]\<rparr> sheet_data)"

definition update_excel_with_json_data ::
  "json_data \<Rightarrow> (string \<times> concept list) list \<Rightarrow> store option \<Rightarrow> bool \<times> store option" where
  "update_excel_with_json_data jd concept_mapping file =
     (case file of
        Some existing_data \<Rightarrow> (True, Some (update_sheets jd concept_mapping existing_data))
      | None \<Rightarrow> (True, Some (new_sheets jd concept_mapping [])))"


subsection \<open>process\_client\_files\<close>

text \<open>
  The loop over the files of the directory: a file whose \<open>process_single_file\<close> result is
  \<open>None\<close> is left out of the store; the others are upserted and counted when the upsert
  returns \<open>True\<close>.
\<close>

fun process_files ::
  "pipeline_env \<Rightarrow> (string \<times> concept list) list \<Rightarrow> string \<Rightarrow> string list \<Rightarrow> store option \<Rightarrow> nat
     \<Rightarrow> store option \<times> nat" where
  "process_files env concept_mapping output_dir [] file successful_files = (file, successful_files)"
| "process_files env concept_mapping output_dir (file_path # rest) file successful_files =
     (case fst (process_single_file env file_path concept_mapping output_dir) of
        None \<Rightarrow> process_files env concept_mapping output_dir rest file successful_files
      | Some jd \<Rightarrow>
          (case update_excel_with_json_data jd concept_mapping file of
             (ok, file') \<Rightarrow>
               process_files env concept_mapping output_dir rest file'
                 (if ok then Suc successful_files else successful_files)))"

section \<open>The specification's reading of the reconciler's input\<close>

text \<open>
  A failure sentinel is a text that begins with \<open>Failed\<close> or with \<open>Error\<close>.  The fusion
  input is the list of the string results that are not failure sentinels, each with the
  name of its method, in the order of the dictionary.
\<close>

definition is_failure_sentinel :: "string \<Rightarrow> bool" where
  "is_failure_sentinel text = (startswith text ''Failed'' \<or> startswith text ''Error'')"

fun fusion_input :: "(string \<times> ocr_val) list \<Rightarrow> (string \<times> string) list" where
  "fusion_input [] = []"
| "fusion_input ((method, OStr text) # rest) =
     (if is_failure_sentinel text then fusion_input rest else (method, text) # fusion_input rest)"
| "fusion_input ((method, ONonStr ty) # rest) = fusion_input rest"

definition extraction_section :: "string \<times> string \<Rightarrow> string" where
  "extraction_section mt =
     ''--- '' @ fst mt @ '' ---'' @ [CHR 0x0A] @ snd mt @ [CHR 0x0A, CHR 0x0A]"

section \<open>Example collaborators\<close>

text \<open>
  A host on which every collaborator answers: two providers, one of which reports a
  failure, and a model that replies with one block of text.
\<close>

definition example_results :: "(string \<times> ocr_val) list" where
  "example_results =
     [(''Claude'', OStr ''Dana Levi, Haifa''),
      (''DocumentAI'', OStr ''Error processing file with Document AI: timeout'')]"

definition failed_results :: "(string \<times> ocr_val) list" where
  "failed_results =
     [(''Claude'', OStr ''Error processing file with Claude: overloaded''),
      (''DocumentAI'', OStr ''Failed to convert DOC file: cv_7.doc'')]"

definition example_ocr_env :: ocr_env where
  "example_ocr_env =
     \<lparr>anthropic_vertex = None,
      messages_create = (\<lambda>prompt. Inr [''Dana Levi, Haifa'']),
      import_ocr_combined = None,
      process_png_file = (\<lambda>p. Inr example_results),
      process_pdf_file = (\<lambda>p. Inr example_results),
      process_docx_file = (\<lambda>p. Inr example_results)\<rparr>"

text \<open>A host without credentials: the construction of the client raises.\<close>

definition offline_ocr_env :: ocr_env where
  "offline_ocr_env = example_ocr_env\<lparr>anthropic_vertex := Some (Exn ''credentials not found'')\<rparr>"

definition example_env :: pipeline_env where
  "example_env =
     \<lparr>ocr = example_ocr_env,
      extract_aspects_with_claude = (\<lambda>text values doc_type. Inr [(''Name'', PStr ''Dana Levi'')]),
      now = ''2025-01-01 10:00:00'',
      mkdir = (\<lambda>d. None),
      write_json = (\<lambda>p d. None)\<rparr>"

definition example_mapping :: "(string \<times> concept list) list" where
  "example_mapping = [(''Personal'', [(PInt 1, ''Name''), (PInt 2, ''City'')])]"

text \<open>A host on which the module \<open>OCR_Combined\<close> cannot be imported.\<close>

definition no_module_ocr_env :: ocr_env where
  "no_module_ocr_env =
     example_ocr_env\<lparr>import_ocr_combined := Some (Exn ''No module named OCR_Combined'')\<rparr>"

definition offline_env :: pipeline_env where
  "offline_env = example_env\<lparr>ocr := offline_ocr_env\<rparr>"

section \<open>The specification's reading of a concept sheet\<close>

text \<open>
  The data rows of a sheet are the rows after the header, once the fully blank rows are
  removed.  The label of a concept is in the second column, or in the only column of a
  sheet that has one column; the value texts are the labels that are not blank, cast to
  strings and stripped.
\<close>

definition data_rows :: "sheet_rows \<Rightarrow> sheet_rows" where
  "data_rows sh = tl (dropna_all sh)"

definition value_cells :: "sheet_rows \<Rightarrow> pyval list" where
  "value_cells sh =
     map (\<lambda>r. cell_at r (if sheet_width sh \<ge> 2 then 1 else 0)) (data_rows sh)"

definition id_cells :: "sheet_rows \<Rightarrow> pyval list" where
  "id_cells sh =
     (if sheet_width sh \<ge> 2 then map (\<lambda>r. cell_at r 0) (data_rows sh)
      else map (\<lambda>i. PInt (int i)) [0 ..< length (data_rows sh)])"

definition value_texts :: "sheet_rows \<Rightarrow> string list" where
  "value_texts sh =
     map (\<lambda>c. py_strip (astype_str c)) (filter (\<lambda>c. c \<noteq> PNaN) (value_cells sh))"

text \<open>
  A template: a sheet with a blank row, a sheet of a header and one concept, a sheet of a
  header only, a sheet without labels; and a template with a blank label.
\<close>

definition example_workbook :: "(string \<times> sheet_rows) list" where
  "example_workbook =
     [(''Languages'', [[PStr ''id'', PStr ''name''], [PInt 1, PStr ''Hebrew''], [PNaN, PNaN],
                       [PInt 2, PStr '' English '']]),
      (''Single'', [[PStr ''id'', PStr ''name''], [PInt 7, PStr ''City'']]),
      (''Empty'', [[PStr ''id'', PStr ''name''], [PNaN, PNaN]]),
      (''NoLabels'', [[PStr ''id'', PStr ''name''], [PInt 1, PNaN]])]"

definition blank_label_workbook :: "(string \<times> sheet_rows) list" where
  "blank_label_workbook =
     [(''Languages'', [[PStr ''id'', PStr ''name''], [PInt 1, PNaN], [PInt 2, PStr '' English '']])]"

section \<open>The specification's reading of the store\<close>






definition doc_7 :: json_data where
  "doc_7 = \<lparr>j_id = ''7'', j_data = [(''Name'', PStr ''Noa''), (''City'', PStr ''Eilat'')],
             j_file_type = ''png''\<rparr>"

definition doc_482_again :: json_data where
  "doc_482_again = \<lparr>j_id = ''482'',
                     j_data = [(''Name'', PStr ''Dana Levy''), (''City'', PStr ''Haifa'')],
                     j_file_type = ''pdf''\<rparr>"

text \<open>
  A store written under an older template, which had no concept \<open>City\<close>; a store in which
  a document has two rows, its identifier a number in one and a text in the other; and a
  template with a concept labelled \<open>ID\<close>.
\<close>

definition older_frame :: data_frame where
  "older_frame =
     \<lparr>columns = [''ID'', ''File Type'', ''Name'', ''Phone''],
      rows = [[(''ID'', PStr ''7''), (''File Type'', PStr ''png''), (''Name'', PStr ''Noa''),
               (''Phone'', PStr ''050'')],
              [(''ID'', PInt 482), (''File Type'', PStr ''pdf''), (''Name'', PStr ''Dana''),
               (''Phone'', PStr ''052'')]]\<rparr>"

definition older_store :: store where
  "older_store = [(''Personal'', older_frame)]"



section \<open>debug\_OCR\_THROW\_PNG: conversion to PNG\<close>

text \<open>
  The calls that the conversion functions make to libraries and programs, with the
  arguments that matter: the page range and resolution of \<open>convert_from_path\<close>, the index
  of the page rendered by PyMuPDF, the command line given to \<open>subprocess.run\<close>.
\<close>

datatype conv_event =
    Import string
  | ConvertFromPath string "string option" nat nat nat
  | ImageSave string
  | FitzOpen string
  | GetPixmap string nat
  | PixSave string
  | SubprocessRun "string list"
  | OsRemove string
  | Dispatch string
  | DocumentsOpen string
  | SaveAs string nat
  | DocClose
  | WordQuit
  | DocxDocument string
  | PdfBuild string
  | TextImageSave string

text \<open>
  The host: which imports fail, where poppler is, and what each library call does
  (\<open>Some e\<close> or \<open>Inl e\<close> when it raises).  \<open>convert_from_path\<close> answers with the number of
  images it returns, \<open>fitz_open\<close> with the number of pages of the document.
\<close>

record conv_env =
  import_error :: "string \<Rightarrow> exn option"
  platform_system :: string
  script_dir :: string
  path_exists :: "string \<Rightarrow> bool"
  convert_from_path :: "string \<Rightarrow> string option \<Rightarrow> exn + nat"
  image_save :: "string \<Rightarrow> exn option"
  tempfile_error :: "nat \<Rightarrow> exn option"
  fitz_open :: "string \<Rightarrow> exn + nat"
  get_pixmap :: "string \<Rightarrow> exn option"
  pix_save :: "string \<Rightarrow> exn option"
  subprocess_run :: "string list \<Rightarrow> exn option"
  os_remove_error :: "string \<Rightarrow> exn option"
  dispatch_word :: "exn option"
  documents_open :: "string \<Rightarrow> exn option"
  save_as :: "string \<Rightarrow> nat \<Rightarrow> exn option"
  doc_close :: "exn option"
  docx_text :: "string \<Rightarrow> exn + string"
  pdf_build :: "string \<Rightarrow> string \<Rightarrow> exn option"
  text_image_save :: "string \<Rightarrow> string \<Rightarrow> exn option"

text \<open>
  The part of the world that the functions change: the temporary files on disk, in the
  order of their creation, the number of temporary files asked for so far, and the calls
  made.
\<close>

record world =
  temp_files :: "string list"
  next_temp :: nat
  calls :: "conv_event list"

definition emit :: "conv_event \<Rightarrow> world \<Rightarrow> world" where
  "emit ev w = w\<lparr>calls := calls w @ [ev]\<rparr>"

text \<open>
  \<open>with tempfile.NamedTemporaryFile(suffix=..., delete=False) as f: temp_path = f.name\<close>:
  a new file, which stays on disk after the block.  Its name is never empty.
\<close>

definition named_temporary_file :: "conv_env \<Rightarrow> string \<Rightarrow> world \<Rightarrow> (exn + string) \<times> world" where
  "named_temporary_file env suffix w =
     (case tempfile_error env (next_temp w) of
        Some e \<Rightarrow> (Inl e, w\<lparr>next_temp := Suc (next_temp w)\<rparr>)
      | None \<Rightarrow>
          (let temp_path = ''/tmp/tmp'' @ str_of_nat (next_temp w) @ suffix
           in (Inr temp_path,
               w\<lparr>temp_files := temp_files w @ [temp_path], next_temp := Suc (next_temp w)\<rparr>)))"

text \<open>\<open>try: os.remove(path) except: pass\<close>\<close>

definition os_remove :: "conv_env \<Rightarrow> string \<Rightarrow> world \<Rightarrow> world" where
  "os_remove env path w =
     (case os_remove_error env path of
        Some e \<Rightarrow> emit (OsRemove path) w
      | None \<Rightarrow> (emit (OsRemove path) w)\<lparr>temp_files := removeAll path (temp_files w)\<rparr>)"

text \<open>\<open>os.path.join\<close> on Windows, for components that do not end with a separator.\<close>

definition win_join :: "string \<Rightarrow> string \<Rightarrow> string" where
  "win_join a b = a @ [CHR 0x5C] @ b"

definition get_poppler_path :: "conv_env \<Rightarrow> string option" where
  "get_poppler_path env =
     (if platform_system env = ''Windows'' then
        (let poppler_path = win_join (win_join (win_join (script_dir env) ''poppler'') ''Library'') ''bin''
         in if path_exists env poppler_path then Some poppler_path
            else
              (let poppler_path = win_join (win_join (script_dir env) ''poppler'') ''bin''
               in if path_exists env poppler_path then Some poppler_path
                  else find (path_exists env)
                         [''C:'' @ [CHR 0x5C] @ ''Program Files'' @ [CHR 0x5C] @ ''poppler'' @ [CHR 0x5C] @ ''bin'',
                          ''C:'' @ [CHR 0x5C] @ ''Program Files (x86)'' @ [CHR 0x5C] @ ''poppler'' @ [CHR 0x5C] @ ''bin'',
                          ''C:'' @ [CHR 0x5C] @ ''poppler'' @ [CHR 0x5C] @ ''bin'']))
      else None)"

text \<open>
  \<open>convert_pdf_to_png_with_pymupdf\<close>: the whole body is in a \<open>try\<close> whose handler returns
  \<open>None\<close>.
\<close>

definition convert_pdf_to_png_with_pymupdf :: "conv_env \<Rightarrow> string \<Rightarrow> world \<Rightarrow> string option \<times> world" where
  "convert_pdf_to_png_with_pymupdf env pdf_path w =
     (let w1 = emit (Import ''fitz'') w
      in case import_error env ''fitz'' of
           Some e \<Rightarrow> (None, w1)
         | None \<Rightarrow>
             (let w2 = emit (FitzOpen pdf_path) w1
              in case fitz_open env pdf_path of
                   Inl e \<Rightarrow> (None, w2)
                 | Inr page_count \<Rightarrow>
                     if page_count = 0 then (None, w2)
                     else
                       (let w3 = emit (GetPixmap pdf_path 0) w2
                        in case get_pixmap env pdf_path of
                             Some e \<Rightarrow> (None, w3)
                           | None \<Rightarrow>
                               (case named_temporary_file env ''.png'' w3 of
                                  (Inl e, w4) \<Rightarrow> (None, w4)
                                | (Inr temp_path, w4) \<Rightarrow>
                                    (let w5 = emit (PixSave temp_path) w4
                                     in case pix_save env temp_path of
                                          Some e \<Rightarrow> (None, w5)
                                        | None \<Rightarrow> (Some temp_path, w5))))))"

text \<open>
  The second half of \<open>convert_pdf_to_png\<close>, which every failure of the first method falls
  through to: PyMuPDF, then ImageMagick, then \<open>return None\<close>.
\<close>

definition pdf_fall_through :: "conv_env \<Rightarrow> string \<Rightarrow> world \<Rightarrow> (exn + string option) \<times> world" where
  "pdf_fall_through env pdf_path w =
     (case convert_pdf_to_png_with_pymupdf env pdf_path w of
        (Some png_path, w1) \<Rightarrow> (Inr (Some png_path), w1)
      | (None, w1) \<Rightarrow>
          (case named_temporary_file env ''.png'' w1 of
             (Inl e, w2) \<Rightarrow> (Inr None, w2)
           | (Inr temp_path, w2) \<Rightarrow>
               (let args = [''magick'', ''convert'', ''-density'', ''300'', pdf_path @ ''[0]'', temp_path];
                    w3 = emit (SubprocessRun args) w2
                in case subprocess_run env args of
                     Some e \<Rightarrow> (Inr None, w3)
                   | None \<Rightarrow> (Inr (Some temp_path), w3))))"

text \<open>
  \<open>convert_pdf_to_png\<close>.  The result is kept as \<open>exn + string option\<close>, so that "does not
  raise" is a statement about the function.
\<close>

definition convert_pdf_to_png :: "conv_env \<Rightarrow> string \<Rightarrow> world \<Rightarrow> (exn + string option) \<times> world" where
  "convert_pdf_to_png env pdf_path w =
     (let w1 = emit (Import ''pdf2image'') w
      in case import_error env ''pdf2image'' of
           Some e \<Rightarrow> pdf_fall_through env pdf_path w1
         | None \<Rightarrow>
             (let poppler_path = get_poppler_path env;
                  w2 = emit (ConvertFromPath pdf_path poppler_path 1 1 300) w1
              in case convert_from_path env pdf_path poppler_path of
                   Inl e \<Rightarrow> pdf_fall_through env pdf_path w2
                 | Inr images \<Rightarrow>
                     if images \<noteq> 0 then
                       (case named_temporary_file env ''.png'' w2 of
                          (Inl e, w3) \<Rightarrow> pdf_fall_through env pdf_path w3
                        | (Inr temp_path, w3) \<Rightarrow>
                            (let w4 = emit (ImageSave temp_path) w3
                             in case image_save env temp_path of
                                  Some e \<Rightarrow> pdf_fall_through env pdf_path w4
                                | None \<Rightarrow> (Inr (Some temp_path), w4)))
                     else pdf_fall_through env pdf_path w2))"

text \<open>\<open>extract_text_from_docx\<close>, \<open>create_pdf_from_text\<close> and \<open>create_text_image\<close>.\<close>

definition extract_text_from_docx :: "conv_env \<Rightarrow> string \<Rightarrow> world \<Rightarrow> string \<times> world" where
  "extract_text_from_docx env docx_path w =
     (let w1 = emit (Import ''docx'') w
      in case import_error env ''docx'' of
           Some e \<Rightarrow> (''Error extracting text from document.'', w1)
         | None \<Rightarrow>
             (case docx_text env docx_path of
                Inl e \<Rightarrow> (''Error extracting text from document.'', emit (DocxDocument docx_path) w1)
              | Inr full_text \<Rightarrow> (full_text, emit (DocxDocument docx_path) w1)))"

definition create_pdf_from_text :: "conv_env \<Rightarrow> string \<Rightarrow> world \<Rightarrow> string option \<times> world" where
  "create_pdf_from_text env txt w =
     (let w1 = emit (Import ''reportlab'') w
      in case import_error env ''reportlab'' of
           Some e \<Rightarrow> (None, w1)
         | None \<Rightarrow>
             (case named_temporary_file env ''.pdf'' w1 of
                (Inl e, w2) \<Rightarrow> (None, w2)
              | (Inr temp_pdf_path, w2) \<Rightarrow>
                  (let w3 = emit (PdfBuild temp_pdf_path) w2
                   in case pdf_build env temp_pdf_path txt of
                        Some e \<Rightarrow> (None, w3)
                      | None \<Rightarrow> (Some temp_pdf_path, w3))))"

definition create_text_image :: "conv_env \<Rightarrow> string \<Rightarrow> world \<Rightarrow> string option \<times> world" where
  "create_text_image env txt w =
     (let w1 = emit (Import ''PIL'') w
      in case import_error env ''PIL'' of
           Some e \<Rightarrow> (None, w1)
         | None \<Rightarrow>
             (case named_temporary_file env ''.png'' w1 of
                (Inl e, w2) \<Rightarrow> (None, w2)
              | (Inr temp_path, w2) \<Rightarrow>
                  (let w3 = emit (TextImageSave temp_path) w2
                   in case text_image_save env temp_path txt of
                        Some e \<Rightarrow> (None, w3)
                      | None \<Rightarrow> (Some temp_path, w3))))"

text \<open>
  Method 1 of \<open>convert_docx_to_png\<close>, the \<open>try\<close> block with Word: \<open>Some\<close> is the
  \<open>return png_path\<close>, \<open>None\<close> is every way out of the block that goes on to method 2.
  \<open>word.Quit()\<close> is in the \<open>finally\<close> clause of the inner \<open>try\<close>, which starts after
  \<open>Dispatch\<close>.  Paths are taken to be absolute already.
\<close>

definition docx_method_1 :: "conv_env \<Rightarrow> string \<Rightarrow> world \<Rightarrow> string option \<times> world" where
  "docx_method_1 env docx_path w =
     (let w1 = emit (Import ''win32com.client'') w
      in case import_error env ''win32com.client'' of
           Some e \<Rightarrow> (None, w1)
         | None \<Rightarrow>
             (case named_temporary_file env ''.pdf'' w1 of
                (Inl e, w2) \<Rightarrow> (None, w2)
              | (Inr temp_pdf_path, w2) \<Rightarrow>
                  (let w3 = emit (Dispatch ''Word.Application'') w2
                   in case dispatch_word env of
                        Some e \<Rightarrow> (None, w3)
                      | None \<Rightarrow>
                          (let w4 = emit (DocumentsOpen docx_path) w3
                           in case documents_open env docx_path of
                                Some e \<Rightarrow> (None, emit WordQuit w4)
                              | None \<Rightarrow>
                                  (let w5 = emit (SaveAs temp_pdf_path 17) w4
                                   in case save_as env temp_pdf_path 17 of
                                        Some e \<Rightarrow> (None, emit WordQuit w5)
                                      | None \<Rightarrow>
                                          (let w6 = emit DocClose w5
                                           in case doc_close env of
                                                Some e \<Rightarrow> (None, emit WordQuit w6)
                                              | None \<Rightarrow>
                                                  (case convert_pdf_to_png env temp_pdf_path w6 of
                                                     (Inl e, w7) \<Rightarrow> (None, emit WordQuit w7)
                                                   | (Inr png_path, w7) \<Rightarrow>
                                                       (png_path,
                                                        emit WordQuit
                                                          (os_remove env temp_pdf_path w7)))))))))"

text \<open>Method 2, the \<open>try\<close> block that extracts the text, and the final \<open>return None\<close>.\<close>

definition docx_method_2 :: "conv_env \<Rightarrow> string \<Rightarrow> world \<Rightarrow> (exn + string option) \<times> world" where
  "docx_method_2 env docx_path w =
     (case extract_text_from_docx env docx_path w of
        (txt, w1) \<Rightarrow>
          if txt \<noteq> [] then
            (case create_pdf_from_text env txt w1 of
               (Some pdf_path, w2) \<Rightarrow>
                 (case convert_pdf_to_png env pdf_path w2 of
                    (Inl e, w3) \<Rightarrow> (Inr None, w3)
                  | (Inr png_path, w3) \<Rightarrow>
                      (case png_path of
                         Some p \<Rightarrow> (Inr (Some p), os_remove env pdf_path w3)
                       | None \<Rightarrow>
                           (case create_text_image env txt (os_remove env pdf_path w3) of
                              (r, w4) \<Rightarrow> (Inr r, w4))))
             | (None, w2) \<Rightarrow> (case create_text_image env txt w2 of (r, w3) \<Rightarrow> (Inr r, w3)))
          else (Inr None, w1))"

definition convert_docx_to_png :: "conv_env \<Rightarrow> string \<Rightarrow> world \<Rightarrow> (exn + string option) \<times> world" where
  "convert_docx_to_png env docx_path w =
     (case docx_method_1 env docx_path w of
        (Some png_path, w1) \<Rightarrow> (Inr (Some png_path), w1)
      | (None, w1) \<Rightarrow> docx_method_2 env docx_path w1)"

section \<open>The specification's reading of the PDF chain\<close>

text \<open>
  A strategy turns the world into a raster image or into nothing.  A chain tries its
  strategies in order and stops at the first image.
\<close>

type_synonym strategy = "world \<Rightarrow> string option \<times> world"

fun first_success :: "strategy list \<Rightarrow> strategy" where
  "first_success [] w = (None, w)"
| "first_success (s # ss) w =
     (case s w of
        (Some png_path, w1) \<Rightarrow> (Some png_path, w1)
      | (None, w1) \<Rightarrow> first_success ss w1)"

text \<open>The page render of pdf2image with poppler.\<close>

definition pdf2image_strategy :: "conv_env \<Rightarrow> string \<Rightarrow> strategy" where
  "pdf2image_strategy env pdf_path w =
     (case import_error env ''pdf2image'' of
        Some e \<Rightarrow> (None, emit (Import ''pdf2image'') w)
      | None \<Rightarrow>
          (case convert_from_path env pdf_path (get_poppler_path env) of
             Inl e \<Rightarrow>
               (None, emit (ConvertFromPath pdf_path (get_poppler_path env) 1 1 300)
                        (emit (Import ''pdf2image'') w))
           | Inr images \<Rightarrow>
               if images = 0
               then (None, emit (ConvertFromPath pdf_path (get_poppler_path env) 1 1 300)
                             (emit (Import ''pdf2image'') w))
               else
                 (case named_temporary_file env ''.png''
                         (emit (ConvertFromPath pdf_path (get_poppler_path env) 1 1 300)
                            (emit (Import ''pdf2image'') w)) of
                    (Inl e, w1) \<Rightarrow> (None, w1)
                  | (Inr temp_path, w1) \<Rightarrow>
                      (case image_save env temp_path of
                         Some e \<Rightarrow> (None, emit (ImageSave temp_path) w1)
                       | None \<Rightarrow> (Some temp_path, emit (ImageSave temp_path) w1)))))"

text \<open>The conversion by the external program ImageMagick.\<close>

definition imagemagick_strategy :: "conv_env \<Rightarrow> string \<Rightarrow> strategy" where
  "imagemagick_strategy env pdf_path w =
     (case named_temporary_file env ''.png'' w of
        (Inl e, w1) \<Rightarrow> (None, w1)
      | (Inr temp_path, w1) \<Rightarrow>
          (case subprocess_run env
                  [''magick'', ''convert'', ''-density'', ''300'', pdf_path @ ''[0]'', temp_path] of
             Some e \<Rightarrow>
               (None, emit (SubprocessRun [''magick'', ''convert'', ''-density'', ''300'',
                                           pdf_path @ ''[0]'', temp_path]) w1)
           | None \<Rightarrow>
               (Some temp_path,
                emit (SubprocessRun [''magick'', ''convert'', ''-density'', ''300'',
                                     pdf_path @ ''[0]'', temp_path]) w1)))"

text \<open>A call that renders a PDF asks for the first page of the given document only.\<close>

fun first_page_only :: "string \<Rightarrow> conv_event \<Rightarrow> bool" where
  "first_page_only pdf_path (ConvertFromPath p poppler first_page last_page dpi) =
     (p = pdf_path \<and> first_page = 1 \<and> last_page = 1)"
| "first_page_only pdf_path (GetPixmap p page) = (p = pdf_path \<and> page = 0)"
| "first_page_only pdf_path (SubprocessRun args) =
     (take 5 args = [''magick'', ''convert'', ''-density'', ''300'', pdf_path @ ''[0]''])"
| "first_page_only pdf_path ev = True"

section \<open>Example hosts\<close>

text \<open>A host on which nothing is installed: every import and every call raises.\<close>

definition bare_host :: conv_env where
  "bare_host =
     \<lparr>import_error = (\<lambda>m. Some (Exn (''No module named '' @ m))),
      platform_system = ''Linux'',
      script_dir = ''/app'',
      path_exists = (\<lambda>p. False),
      convert_from_path = (\<lambda>p poppler. Inl (Exn ''Unable to get page count. Is poppler installed?'')),
      image_save = (\<lambda>p. None),
      tempfile_error = (\<lambda>n. None),
      fitz_open = (\<lambda>p. Inl (Exn ''cannot open'')),
      get_pixmap = (\<lambda>p. None),
      pix_save = (\<lambda>p. None),
      subprocess_run = (\<lambda>args. Some (Exn ''No such file or directory: magick'')),
      os_remove_error = (\<lambda>p. None),
      dispatch_word = Some (Exn ''Invalid class string''),
      documents_open = (\<lambda>p. Some (Exn ''Open failed'')),
      save_as = (\<lambda>p f. None),
      doc_close = None,
      docx_text = (\<lambda>p. Inl (Exn ''Package not found'')),
      pdf_build = (\<lambda>p t. None),
      text_image_save = (\<lambda>p t. None)\<rparr>"

text \<open>A host without poppler, on which PyMuPDF works.\<close>

definition pymupdf_host :: conv_env where
  "pymupdf_host =
     bare_host\<lparr>import_error := (\<lambda>m. if m = ''pdf2image'' \<or> m = ''fitz'' then None
                                      else Some (Exn (''No module named '' @ m))),
               fitz_open := (\<lambda>p. Inr 3)\<rparr>"

text \<open>A Windows host with the Word automation library, on which Word cannot open the document.\<close>

definition word_host :: conv_env where
  "word_host =
     bare_host\<lparr>import_error := (\<lambda>m. if m = ''win32com.client'' then None
                                      else Some (Exn (''No module named '' @ m))),
               platform_system := ''Windows'',
               dispatch_word := None\<rparr>"

definition empty_world :: world where
  "empty_world = \<lparr>temp_files = [], next_temp = 0, calls = []\<rparr>"

section \<open>Properties\<close>

subsection \<open>extract\_file\_id\<close>

lemma extract_file_id_eq:
  "extract_file_id s =
     (if list_ex is_digit s
      then Some (takeWhile is_digit (dropWhile (\<lambda>c. \<not> is_digit c) s)) else None)"
  by (induction s) auto

lemma extract_file_id_Some_iff:
  "extract_file_id s = Some d \<longleftrightarrow>
     (\<exists>pre post. s = pre @ d @ post \<and> d \<noteq> [] \<and> list_all is_digit d \<and> \<not> list_ex is_digit pre
                  \<and> (post = [] \<or> \<not> is_digit (hd post)))"
proof
  assume h: "extract_file_id s = Some d"
  let ?r = "dropWhile (\<lambda>c. \<not> is_digit c) s"
  from h have ex: "list_ex is_digit s" and d: "d = takeWhile is_digit ?r"
    by (auto simp: extract_file_id_eq split: if_splits)
  have rne: "?r \<noteq> []" using ex by (auto simp: list_ex_iff)
  then have "is_digit (hd ?r)" using hd_dropWhile[of "\<lambda>c. \<not> is_digit c" s] by auto
  then have dne: "d \<noteq> []" using rne d by (cases ?r) auto
  have s: "s = takeWhile (\<lambda>c. \<not> is_digit c) s @ d @ dropWhile is_digit ?r"
    using d by simp
  have post: "dropWhile is_digit ?r = [] \<or> \<not> is_digit (hd (dropWhile is_digit ?r))"
    using hd_dropWhile[of is_digit ?r] by auto
  have pre: "\<not> list_ex is_digit (takeWhile (\<lambda>c. \<not> is_digit c) s)"
    by (auto simp: list_ex_iff dest: set_takeWhileD)
  have "list_all is_digit d" using d by (auto simp: list_all_iff dest: set_takeWhileD)
  with s dne pre post
  show "\<exists>pre post. s = pre @ d @ post \<and> d \<noteq> [] \<and> list_all is_digit d \<and> \<not> list_ex is_digit pre
                  \<and> (post = [] \<or> \<not> is_digit (hd post))" by blast
next
  assume "\<exists>pre post. s = pre @ d @ post \<and> d \<noteq> [] \<and> list_all is_digit d \<and> \<not> list_ex is_digit pre
                  \<and> (post = [] \<or> \<not> is_digit (hd post))"
  then obtain pre post where s: "s = pre @ d @ post" and dne: "d \<noteq> []"
    and dd: "list_all is_digit d" and pre: "\<not> list_ex is_digit pre"
    and post: "post = [] \<or> \<not> is_digit (hd post)" by blast
  have hd: "is_digit (hd d)" using dne dd by (cases d) auto
  have 1: "dropWhile (\<lambda>c. \<not> is_digit c) s = d @ post"
    using pre dne hd s by (cases d) (auto simp: list_ex_iff dropWhile_append3)
  have 2: "takeWhile is_digit (d @ post) = d"
    using dd post by (cases post) (auto simp: list_all_iff takeWhile_append2 takeWhile_tail)
  have "list_ex is_digit s" using s dne hd by (cases d) (auto simp: list_ex_iff)
  then show "extract_file_id s = Some d" using 1 2 by (simp add: extract_file_id_eq)
qed

lemma process_single_file_no_id:
  "extract_file_id (basename file_path) = None \<Longrightarrow>
   process_single_file env file_path concept_mapping output_dir = (None, [])"
  by (simp add: process_single_file_def Let_def)

lemma process_files_skip:
  "fst (process_single_file env file_path cm out) = None \<Longrightarrow>
   process_files env cm out [file_path] st n = (st, n)"
  by simp

text \<open>
  Claim C9.  \<open>extract_file_id\<close> returns the first run of digits of the file name: the name
  is a prefix without digits, then the identifier, which is a non-empty run of digits, then
  a rest that does not begin with a digit; for \<open>request_482.pdf\<close> it is \<open>482\<close>.  It returns
  \<open>None\<close> exactly when the name has no digit, and then \<open>process_single_file\<close> returns
  \<open>None\<close> having called no collaborator and written nothing, and the batch loop leaves the
  store and the count of successes as they were.
\<close>

theorem extract_file_id_first_digit_run:
  "(extract_file_id name = None \<longleftrightarrow> \<not> list_ex is_digit name)
   \<and> (extract_file_id name = Some d \<longleftrightarrow>
        (\<exists>pre post. name = pre @ d @ post \<and> d \<noteq> [] \<and> list_all is_digit d
           \<and> \<not> list_ex is_digit pre \<and> (post = [] \<or> \<not> is_digit (hd post))))
   \<and> extract_file_id ''request_482.pdf'' = Some ''482''
   \<and> (extract_file_id (basename file_path) = None \<longrightarrow>
        process_single_file env file_path concept_mapping output_dir = (None, [])
        \<and> process_files env concept_mapping output_dir [file_path] st n = (st, n))"
proof -
  have a: "extract_file_id name = None \<longleftrightarrow> \<not> list_ex is_digit name"
    by (simp add: extract_file_id_eq)
  have c: "extract_file_id ''request_482.pdf'' = Some ''482''"
    by (simp add: is_digit_def)
  have d: "extract_file_id (basename file_path) = None \<longrightarrow>
        process_single_file env file_path concept_mapping output_dir = (None, [])
        \<and> process_files env concept_mapping output_dir [file_path] st n = (st, n)"
    using process_single_file_no_id[of file_path env concept_mapping output_dir]
          process_files_skip[of env file_path concept_mapping output_dir st n] by simp
  show ?thesis using a c d extract_file_id_Some_iff[of name d] by blast
qed

theorem extract_file_id_first_digit_run_witness:
  "extract_file_id ''cv_2024_v3.docx'' = Some ''2024''
   \<and> extract_file_id (basename ''inbox/resume.pdf'') = None
   \<and> process_single_file example_env ''inbox/resume.pdf'' example_mapping ''out'' = (None, [])
   \<and> process_files example_env example_mapping ''out'' [''inbox/resume.pdf''] None 0 = (None, 0)"
proof -
  have h: "extract_file_id (basename ''inbox/resume.pdf'') = None"
    by (simp add: basename_def is_digit_def)
  have e: "''cv_2024_v3.docx'' = ''cv_'' @ ''2024'' @ ''_v3.docx''
      \<and> ''2024'' \<noteq> [] \<and> list_all is_digit ''2024'' \<and> \<not> list_ex is_digit ''cv_''
      \<and> (''_v3.docx'' = [] \<or> \<not> is_digit (hd ''_v3.docx''))"
    by (simp add: is_digit_def)
  from e have "extract_file_id ''cv_2024_v3.docx'' = Some ''2024''"
    using extract_file_id_first_digit_run[of "''cv_2024_v3.docx''" "''2024''"] by blast
  then show ?thesis
    using h extract_file_id_first_digit_run[of "''x''" "''''" "''inbox/resume.pdf''" example_env
        example_mapping "''out''" None 0]
    by simp
qed

subsection \<open>combine\_ocr\_results\<close>

lemma add_ocr_results_eq:
  "add_ocr_results prompt rs = prompt @ concat (map extraction_section (fusion_input rs))"
  by (induction prompt rs rule: add_ocr_results.induct)
     (simp_all add: is_failure_sentinel_def extraction_section_def)

lemma fusion_input_sound:
  "(m, t) \<in> set (fusion_input rs) \<Longrightarrow> (m, OStr t) \<in> set rs \<and> \<not> is_failure_sentinel t"
  by (induction rs rule: fusion_input.induct) (auto split: if_splits)

lemma fusion_input_complete:
  "(m, OStr t) \<in> set rs \<Longrightarrow> \<not> is_failure_sentinel t \<Longrightarrow> (m, t) \<in> set (fusion_input rs)"
  by (induction rs rule: fusion_input.induct) (auto split: if_splits)

lemma combine_events:
  "snd (combine_ocr_results env rs ft l) = [ClientInit]
   \<or> snd (combine_ocr_results env rs ft l) = [ClientInit, MessagesCreate (build_prompt rs ft l)]"
  by (auto simp: combine_ocr_results_def combine_body_def Let_def
           split: option.splits sum.splits list.splits)

text \<open>
  Claim C3.  The prompt that \<open>combine_ocr_results\<close> builds is the header, one section per
  entry of the fusion input, and the footer; an entry is in the fusion input exactly when
  it is a string result that does not begin with \<open>Failed\<close> or \<open>Error\<close>; and the only
  request the function sends carries that prompt.
\<close>

theorem combine_discards_failure_sentinels:
  "build_prompt rs ft l
     = prompt_header ft l @ concat (map extraction_section (fusion_input rs)) @ prompt_footer
   \<and> (\<forall>m t. (m, t) \<in> set (fusion_input rs)
          \<longleftrightarrow> (m, OStr t) \<in> set rs \<and> \<not> startswith t ''Failed'' \<and> \<not> startswith t ''Error'')
   \<and> (\<forall>p. MessagesCreate p \<in> set (snd (combine_ocr_results env rs ft l))
          \<longrightarrow> p = build_prompt rs ft l)"
proof -
  have a: "build_prompt rs ft l
     = prompt_header ft l @ concat (map extraction_section (fusion_input rs)) @ prompt_footer"
    by (simp add: build_prompt_def add_ocr_results_eq)
  have b: "\<forall>m t. (m, t) \<in> set (fusion_input rs)
          \<longleftrightarrow> (m, OStr t) \<in> set rs \<and> \<not> startswith t ''Failed'' \<and> \<not> startswith t ''Error''"
    using fusion_input_sound[of _ _ rs] fusion_input_complete[of _ _ rs]
    unfolding is_failure_sentinel_def by blast
  have c: "\<forall>p. MessagesCreate p \<in> set (snd (combine_ocr_results env rs ft l))
          \<longrightarrow> p = build_prompt rs ft l"
    using combine_events[of env rs ft l] by auto
  show ?thesis using a b c by blast
qed

theorem combine_discards_failure_sentinels_witness:
  "(''Claude'', ''Dana Levi, Haifa'') \<in> set (fusion_input example_results)
   \<and> build_prompt example_results (Some ''pdf'') (Some ''english'')
       = prompt_header (Some ''pdf'') (Some ''english'')
         @ (''--- Claude ---'' @ [CHR 0x0A] @ ''Dana Levi, Haifa'' @ [CHR 0x0A, CHR 0x0A])
         @ prompt_footer
   \<and> MessagesCreate (build_prompt example_results (Some ''pdf'') (Some ''english''))
        \<in> set (snd (combine_ocr_results example_ocr_env example_results (Some ''pdf'') (Some ''english'')))"
proof -
  note T = combine_discards_failure_sentinels[of example_results "Some ''pdf''" "Some ''english''"
      example_ocr_env]
  have f: "fusion_input example_results = [(''Claude'', ''Dana Levi, Haifa'')]"
    by (simp add: example_results_def is_failure_sentinel_def)
  have h: "(''Claude'', OStr ''Dana Levi, Haifa'') \<in> set example_results
      \<and> \<not> startswith ''Dana Levi, Haifa'' ''Failed'' \<and> \<not> startswith ''Dana Levi, Haifa'' ''Error''"
    by (simp add: example_results_def)
  from T have b: "(''Claude'', ''Dana Levi, Haifa'') \<in> set (fusion_input example_results)
          \<longleftrightarrow> (''Claude'', OStr ''Dana Levi, Haifa'') \<in> set example_results
              \<and> \<not> startswith ''Dana Levi, Haifa'' ''Failed'' \<and> \<not> startswith ''Dana Levi, Haifa'' ''Error''"
    by (elim conjE allE)
  from T have a: "build_prompt example_results (Some ''pdf'') (Some ''english'')
     = prompt_header (Some ''pdf'') (Some ''english'')
       @ concat (map extraction_section (fusion_input example_results)) @ prompt_footer"
    by (rule conjunct1)
  have a': "build_prompt example_results (Some ''pdf'') (Some ''english'')
       = prompt_header (Some ''pdf'') (Some ''english'')
         @ (''--- Claude ---'' @ [CHR 0x0A] @ ''Dana Levi, Haifa'' @ [CHR 0x0A, CHR 0x0A])
         @ prompt_footer"
    unfolding a f by (simp add: extraction_section_def)
  have s: "snd (combine_ocr_results example_ocr_env example_results (Some ''pdf'') (Some ''english''))
      = [ClientInit, MessagesCreate (build_prompt example_results (Some ''pdf'') (Some ''english''))]"
    by (simp add: combine_ocr_results_def combine_body_def example_ocr_env_def Let_def)
  have c: "MessagesCreate (build_prompt example_results (Some ''pdf'') (Some ''english''))
        \<in> set (snd (combine_ocr_results example_ocr_env example_results (Some ''pdf'') (Some ''english'')))"
    unfolding s by simp
  from b h have m: "(''Claude'', ''Dana Levi, Haifa'') \<in> set (fusion_input example_results)"
    by (rule iffD2)
  show ?thesis using m a' c by (intro conjI)
qed

text \<open>
  Claim C4, as stated, fails: with every provider result a failure sentinel the function
  still asks the model and returns its reply as the canonical text.
\<close>

theorem combine_no_usable_input_counterexample:
  "fusion_input failed_results = []
   \<and> combine_ocr_results example_ocr_env failed_results (Some ''pdf'') (Some ''english'')
       = (Inr ''Dana Levi, Haifa'',
          [ClientInit, MessagesCreate (build_prompt failed_results (Some ''pdf'') (Some ''english''))])"
  by (simp add: failed_results_def is_failure_sentinel_def combine_ocr_results_def combine_body_def
        example_ocr_env_def Let_def)

text \<open>
  Claim C4, amended.  When no result is left after the failure sentinels are discarded,
  \<open>combine_ocr_results\<close> does what it does on an empty dictionary: the prompt is the header
  followed at once by the footer, and, when the client is built and the model replies, the
  function returns the first block of the reply as the canonical text.
\<close>

theorem combine_no_usable_input:
  "fusion_input rs = [] \<Longrightarrow>
     build_prompt rs ft l = prompt_header ft l @ prompt_footer
   \<and> combine_ocr_results env rs ft l = combine_ocr_results env [] ft l
   \<and> (anthropic_vertex env = None
        \<and> messages_create env (prompt_header ft l @ prompt_footer) = Inr (text # blocks)
      \<longrightarrow> combine_ocr_results env rs ft l
            = (Inr text, [ClientInit, MessagesCreate (prompt_header ft l @ prompt_footer)]))"
proof -
  assume h: "fusion_input rs = []"
  have a: "build_prompt rs ft l = prompt_header ft l @ prompt_footer"
    using h by (simp add: build_prompt_def add_ocr_results_eq)
  have b: "build_prompt [] ft l = prompt_header ft l @ prompt_footer"
    by (simp add: build_prompt_def)
  have c: "combine_ocr_results env rs ft l = combine_ocr_results env [] ft l"
    unfolding combine_ocr_results_def combine_body_def a b ..
  have d: "anthropic_vertex env = None
        \<and> messages_create env (prompt_header ft l @ prompt_footer) = Inr (text # blocks)
      \<longrightarrow> combine_ocr_results env rs ft l
            = (Inr text, [ClientInit, MessagesCreate (prompt_header ft l @ prompt_footer)])"
    using a by (simp add: combine_ocr_results_def combine_body_def)
  show ?thesis using a c d by blast
qed

theorem combine_no_usable_input_witness:
  "fusion_input failed_results = []
   \<and> combine_ocr_results example_ocr_env failed_results (Some ''pdf'') (Some ''english'')
       = (Inr ''Dana Levi, Haifa'',
          [ClientInit,
           MessagesCreate (prompt_header (Some ''pdf'') (Some ''english'') @ prompt_footer)])"
proof -
  have h: "fusion_input failed_results = []"
    by (simp add: failed_results_def is_failure_sentinel_def)
  have e: "anthropic_vertex example_ocr_env = None
     \<and> messages_create example_ocr_env (prompt_header (Some ''pdf'') (Some ''english'') @ prompt_footer)
         = Inr (''Dana Levi, Haifa'' # [])"
    by (simp add: example_ocr_env_def)
  show ?thesis
    using h e combine_no_usable_input[OF h, of "Some ''pdf''" "Some ''english''" example_ocr_env
        "''Dana Levi, Haifa''" "[]"]
    by blast
qed

subsection \<open>Exceptions of the OCR module\<close>

lemma extract_file_id_nonempty: "extract_file_id s = Some d \<Longrightarrow> d \<noteq> []"
  by (induction s) (auto split: if_splits)

lemma combine_returns: "\<exists>text. fst (combine_ocr_results env rs ft l) = Inr text"
  by (auto simp: combine_ocr_results_def split: prod.splits sum.splits)

lemma combine_catches:
  "combine_body env rs ft l = (Inl e, evs) \<Longrightarrow>
   combine_ocr_results env rs ft l
     = (Inr (''Error combining OCR results with Claude: '' @ str_exn e), evs)"
  by (simp add: combine_ocr_results_def)

lemma process_file_returns: "\<exists>text. fst (process_file_with_combined_ocr env p r0) = Inr text"
  by (auto simp: process_file_with_combined_ocr_def split: prod.splits sum.splits)

lemma process_file_catches:
  "process_file_body env p r0 = (Inl e, evs) \<Longrightarrow>
   process_file_with_combined_ocr env p r0
     = (Inr (''Error processing file with combined OCR: '' @ str_exn e), evs)"
  by (simp add: process_file_with_combined_ocr_def)

lemma process_single_file_passes_text:
  assumes "py_lower (splitext_ext p) \<in> set [''.png'', ''.pdf'', ''.docx'']"
    and "extract_file_id (basename p) = Some fid"
    and "process_file_with_combined_ocr (ocr penv) p None = (Inr text, evs)"
  shows "\<exists>rest. snd (process_single_file penv p cm out)
           = evs @ ExtractAspects text (all_concept_values [] cm) (drop 1 (py_lower (splitext_ext p))) # rest"
  using assms extract_file_id_nonempty[OF assms(2)]
  by (auto simp: process_single_file_def Let_def split: sum.splits option.splits)

lemma process_single_file_unsupported:
  "py_lower (splitext_ext p) \<notin> set [''.png'', ''.pdf'', ''.docx''] \<Longrightarrow>
   process_single_file env p cm out = (None, [])"
  by (simp add: process_single_file_def Let_def)

lemma process_file_body_starts:
  "\<exists>evs. snd (process_file_body env p None) = ImportOCRCombined # evs"
  by (auto simp: process_file_body_def Let_def detect_and_combine_def
           split: option.splits sum.splits prod.splits)

lemma process_file_starts:
  "\<exists>evs. snd (process_file_with_combined_ocr env p None) = ImportOCRCombined # evs"
  using process_file_body_starts[of env p]
  by (auto simp: process_file_with_combined_ocr_def split: prod.splits sum.splits)

lemma process_single_file_supported:
  assumes "py_lower (splitext_ext p) \<in> set [''.png'', ''.pdf'', ''.docx'']"
    and "extract_file_id (basename p) = Some fid"
  shows "\<exists>evs. snd (process_single_file env p cm out) = ImportOCRCombined # evs"
proof -
  obtain r evs where r: "process_file_with_combined_ocr (ocr env) p None = (r, evs)"
    by (cases "process_file_with_combined_ocr (ocr env) p None")
  obtain tx where t: "r = Inr tx" using process_file_returns[of "ocr env" p None] r by auto
  obtain evs' where e: "evs = ImportOCRCombined # evs'"
    using process_file_starts[of "ocr env" p] r by auto
  from process_single_file_passes_text[OF assms r[unfolded t], of cm out] e
  show ?thesis by auto
qed

text \<open>
  Claim C10.  \<open>combine_ocr_results\<close> and \<open>process_file_with_combined_ocr\<close> always return a
  string: an exception raised in the body of either is returned as the text \<open>Error ...\<close>
  followed by the message of the exception.  \<open>process_single_file\<close> hands whatever string
  it gets, such a text included, to \<open>extract_aspects_with_claude\<close>.
\<close>

theorem ocr_functions_never_raise:
  "(\<exists>s. fst (combine_ocr_results env rs ft l) = Inr s)
   \<and> (combine_body env rs ft l = (Inl e, evs) \<longrightarrow>
        combine_ocr_results env rs ft l
          = (Inr (''Error combining OCR results with Claude: '' @ str_exn e), evs)
        \<and> startswith (''Error combining OCR results with Claude: '' @ str_exn e) ''Error'')
   \<and> (\<exists>s. fst (process_file_with_combined_ocr env p r0) = Inr s)
   \<and> (process_file_body env p r0 = (Inl e', evs') \<longrightarrow>
        process_file_with_combined_ocr env p r0
          = (Inr (''Error processing file with combined OCR: '' @ str_exn e'), evs')
        \<and> startswith (''Error processing file with combined OCR: '' @ str_exn e') ''Error'')
   \<and> (py_lower (splitext_ext p) \<in> set [''.png'', ''.pdf'', ''.docx'']
        \<and> extract_file_id (basename p) = Some fid
        \<and> process_file_with_combined_ocr (ocr penv) p None = (Inr s', evs'') \<longrightarrow>
        (\<exists>rest. snd (process_single_file penv p cm out)
           = evs'' @ ExtractAspects s' (all_concept_values [] cm)
                       (drop 1 (py_lower (splitext_ext p))) # rest))"
proof -
  have a: "\<exists>s. fst (combine_ocr_results env rs ft l) = Inr s" by (rule combine_returns)
  have b: "combine_body env rs ft l = (Inl e, evs) \<longrightarrow>
        combine_ocr_results env rs ft l
          = (Inr (''Error combining OCR results with Claude: '' @ str_exn e), evs)
        \<and> startswith (''Error combining OCR results with Claude: '' @ str_exn e) ''Error''"
    using combine_catches[of env rs ft l e evs] by simp
  have c: "\<exists>s. fst (process_file_with_combined_ocr env p r0) = Inr s"
    by (rule process_file_returns)
  have d: "process_file_body env p r0 = (Inl e', evs') \<longrightarrow>
        process_file_with_combined_ocr env p r0
          = (Inr (''Error processing file with combined OCR: '' @ str_exn e'), evs')
        \<and> startswith (''Error processing file with combined OCR: '' @ str_exn e') ''Error''"
    using process_file_catches[of env p r0 e' evs'] by simp
  have f: "py_lower (splitext_ext p) \<in> set [''.png'', ''.pdf'', ''.docx'']
        \<and> extract_file_id (basename p) = Some fid
        \<and> process_file_with_combined_ocr (ocr penv) p None = (Inr s', evs'') \<longrightarrow>
        (\<exists>rest. snd (process_single_file penv p cm out)
           = evs'' @ ExtractAspects s' (all_concept_values [] cm)
                       (drop 1 (py_lower (splitext_ext p))) # rest)"
    using process_single_file_passes_text[of p fid penv s' evs'' cm out] by blast
  show ?thesis using a b c d f by (intro conjI)
qed

lemma ext_cv17: "py_lower (splitext_ext ''inbox/cv_17.pdf'') = ''.pdf''"
  by (simp add: splitext_ext_def basename_def py_lower_def char_lower_def Let_def)

lemma id_cv17: "extract_file_id (basename ''inbox/cv_17.pdf'') = Some ''17''"
  by (simp add: basename_def is_digit_def)

theorem ocr_functions_never_raise_witness:
  "combine_body offline_ocr_env example_results (Some ''pdf'') (Some ''english'')
     = (Inl (Exn ''credentials not found''), [ClientInit])
   \<and> combine_ocr_results offline_ocr_env example_results (Some ''pdf'') (Some ''english'')
     = (Inr ''Error combining OCR results with Claude: credentials not found'', [ClientInit])
   \<and> process_file_body no_module_ocr_env ''inbox/cv_17.pdf'' None
     = (Inl (Exn ''No module named OCR_Combined''), [ImportOCRCombined])
   \<and> process_file_with_combined_ocr no_module_ocr_env ''inbox/cv_17.pdf'' None
     = (Inr ''Error processing file with combined OCR: No module named OCR_Combined'',
        [ImportOCRCombined])
   \<and> (\<exists>rest. snd (process_single_file offline_env ''inbox/cv_17.pdf'' example_mapping ''out'')
        = [ImportOCRCombined, ProviderCall ''process_pdf_file'' ''inbox/cv_17.pdf'', ClientInit]
          @ ExtractAspects ''Error combining OCR results with Claude: credentials not found''
              (all_concept_values [] example_mapping) (drop 1 ''.pdf'') # rest)"
proof -
  have h1: "combine_body offline_ocr_env example_results (Some ''pdf'') (Some ''english'')
     = (Inl (Exn ''credentials not found''), [ClientInit])"
    by (simp add: combine_body_def offline_ocr_env_def example_ocr_env_def)
  have h2: "process_file_body no_module_ocr_env ''inbox/cv_17.pdf'' None
     = (Inl (Exn ''No module named OCR_Combined''), [ImportOCRCombined])"
    by (simp add: process_file_body_def no_module_ocr_env_def example_ocr_env_def Let_def)
  have h3: "process_file_with_combined_ocr (ocr offline_env) ''inbox/cv_17.pdf'' None
     = (Inr ''Error combining OCR results with Claude: credentials not found'',
        [ImportOCRCombined, ProviderCall ''process_pdf_file'' ''inbox/cv_17.pdf'', ClientInit])"
    by (simp add: process_file_with_combined_ocr_def process_file_body_def ext_cv17
          detect_and_combine_def combine_ocr_results_def combine_body_def
          offline_env_def example_env_def offline_ocr_env_def example_ocr_env_def Let_def)
  have h4: "py_lower (splitext_ext ''inbox/cv_17.pdf'') \<in> set [''.png'', ''.pdf'', ''.docx'']"
    by (simp add: ext_cv17)
  note T1 = ocr_functions_never_raise[of offline_ocr_env example_results "Some ''pdf''"
      "Some ''english''" "Exn ''credentials not found''" "[ClientInit]"
      "''inbox/cv_17.pdf''" None "Exn ''x''" "[]" "''17''" offline_env
      "''Error combining OCR results with Claude: credentials not found''"
      "[ImportOCRCombined, ProviderCall ''process_pdf_file'' ''inbox/cv_17.pdf'', ClientInit]"
      example_mapping "''out''"]
  note T2 = ocr_functions_never_raise[of no_module_ocr_env example_results "Some ''pdf''"
      "Some ''english''" "Exn ''x''" "[]"
      "''inbox/cv_17.pdf''" None "Exn ''No module named OCR_Combined''" "[ImportOCRCombined]"
      "''17''" offline_env "''x''" "[]" example_mapping "''out''"]
  from T1 h1 have a: "combine_ocr_results offline_ocr_env example_results (Some ''pdf'') (Some ''english'')
     = (Inr ''Error combining OCR results with Claude: credentials not found'', [ClientInit])"
    by simp
  from T2 h2 have b: "process_file_with_combined_ocr no_module_ocr_env ''inbox/cv_17.pdf'' None
     = (Inr ''Error processing file with combined OCR: No module named OCR_Combined'',
        [ImportOCRCombined])"
    by simp
  from T1 h3 h4 id_cv17 have c: "\<exists>rest. snd (process_single_file offline_env ''inbox/cv_17.pdf'' example_mapping ''out'')
        = [ImportOCRCombined, ProviderCall ''process_pdf_file'' ''inbox/cv_17.pdf'', ClientInit]
          @ ExtractAspects ''Error combining OCR results with Claude: credentials not found''
              (all_concept_values [] example_mapping) (drop 1 ''.pdf'') # rest"
    unfolding ext_cv17 by blast
  show ?thesis using h1 a h2 b c by (intro conjI)
qed

subsection \<open>Supported extensions\<close>

text \<open>
  Claim C7, as stated, fails: a legacy \<open>.doc\<close> file and a \<open>.jpg\<close> image, each with an
  identifier in its name, are skipped as unsupported.
\<close>

theorem process_single_file_doc_counterexample:
  "extract_file_id (basename ''inbox/cv_17.doc'') = Some ''17''
   \<and> process_single_file example_env ''inbox/cv_17.doc'' example_mapping ''out'' = (None, [])
   \<and> extract_file_id (basename ''inbox/scan_17.jpg'') = Some ''17''
   \<and> process_single_file example_env ''inbox/scan_17.jpg'' example_mapping ''out'' = (None, [])"
  by (simp add: process_single_file_def splitext_ext_def basename_def py_lower_def char_lower_def
        is_digit_def Let_def)

text \<open>
  Claim C7, amended.  \<open>process_single_file\<close> goes on to the OCR stage exactly for the files
  whose extension, in lower case, is \<open>.png\<close>, \<open>.pdf\<close> or \<open>.docx\<close> and whose name holds an
  identifier: its first act is then the import of the OCR providers.  For every other
  extension it returns \<open>None\<close> having called no collaborator.
\<close>

theorem process_single_file_supported_extensions:
  "(py_lower (splitext_ext p) \<notin> set [''.png'', ''.pdf'', ''.docx'']
      \<longrightarrow> process_single_file env p cm out = (None, []))
   \<and> (py_lower (splitext_ext p) \<in> set [''.png'', ''.pdf'', ''.docx'']
        \<and> extract_file_id (basename p) = Some fid
      \<longrightarrow> (\<exists>evs. snd (process_single_file env p cm out) = ImportOCRCombined # evs))"
  using process_single_file_unsupported[of p env cm out]
        process_single_file_supported[of p fid env cm out]
  by blast

theorem process_single_file_supported_extensions_witness:
  "py_lower (splitext_ext ''inbox/notes_17.txt'') \<notin> set [''.png'', ''.pdf'', ''.docx'']
   \<and> process_single_file example_env ''inbox/notes_17.txt'' example_mapping ''out'' = (None, [])
   \<and> py_lower (splitext_ext ''inbox/cv_17.PDF'') \<in> set [''.png'', ''.pdf'', ''.docx'']
   \<and> extract_file_id (basename ''inbox/cv_17.PDF'') = Some ''17''
   \<and> (\<exists>evs. snd (process_single_file example_env ''inbox/cv_17.PDF'' example_mapping ''out'')
          = ImportOCRCombined # evs)"
proof -
  have h1: "py_lower (splitext_ext ''inbox/notes_17.txt'') \<notin> set [''.png'', ''.pdf'', ''.docx'']"
    by (simp add: splitext_ext_def basename_def py_lower_def char_lower_def Let_def)
  have h2: "py_lower (splitext_ext ''inbox/cv_17.PDF'') \<in> set [''.png'', ''.pdf'', ''.docx'']"
    by code_simp
  have h3: "extract_file_id (basename ''inbox/cv_17.PDF'') = Some ''17''"
    by (simp add: basename_def is_digit_def)
  from h1 process_single_file_supported_extensions[of "''inbox/notes_17.txt''" example_env
      example_mapping "''out''" "''17''"]
  have a: "process_single_file example_env ''inbox/notes_17.txt'' example_mapping ''out'' = (None, [])"
    by blast
  from h2 h3 process_single_file_supported_extensions[of "''inbox/cv_17.PDF''" example_env
      example_mapping "''out''" "''17''"]
  have b: "\<exists>evs. snd (process_single_file example_env ''inbox/cv_17.PDF'' example_mapping ''out'')
          = ImportOCRCombined # evs"
    by blast
  show ?thesis using h1 a h2 h3 b by (intro conjI)
qed

subsection \<open>excel\_to\_concept\_mapping\<close>

lemma parse_sheets_keys: "fst ` set (parse_sheets sheets) \<subseteq> fst ` set sheets"
  by (induction sheets rule: parse_sheets.induct) (auto split: option.splits)

lemma mapping_absent:
  "sheet \<notin> fst ` set sheets \<Longrightarrow> map_of (excel_to_concept_mapping (Inr sheets)) sheet = None"
proof -
  assume "sheet \<notin> fst ` set sheets"
  then have "sheet \<notin> fst ` set (parse_sheets sheets)" using parse_sheets_keys by blast
  then have "sheet \<notin> fst ` set (filter (\<lambda>(sheet, values). values \<noteq> []) (parse_sheets sheets))"
    by auto
  then show ?thesis by (simp add: excel_to_concept_mapping_def map_of_eq_None_iff)
qed

lemma mapping_lookup:
  "distinct (map fst sheets) \<Longrightarrow> (sheet, sh) \<in> set sheets \<Longrightarrow>
   map_of (excel_to_concept_mapping (Inr sheets)) sheet
     = (case sheet_pairs sh of None \<Rightarrow> None | Some ps \<Rightarrow> if ps = [] then None else Some ps)"
proof (induction sheets rule: parse_sheets.induct)
  case 1
  then show ?case by simp
next
  case (2 s rs rest)
  show ?case
  proof (cases "s = sheet")
    case True
    with 2 have rs: "rs = sh" by (auto simp: image_iff)
    from 2 True have "sheet \<notin> fst ` set rest" by auto
    from mapping_absent[OF this] show ?thesis
      using True rs by (auto simp: excel_to_concept_mapping_def split: option.splits)
  next
    case False
    with 2 have "map_of (excel_to_concept_mapping (Inr rest)) sheet
       = (case sheet_pairs sh of None \<Rightarrow> None | Some ps \<Rightarrow> if ps = [] then None else Some ps)"
      by auto
    then show ?thesis using False
      by (auto simp: excel_to_concept_mapping_def split: option.splits)
  qed
qed

lemma sheet_pairs_short: "length (dropna_all sh) < 2 \<Longrightarrow> sheet_pairs sh = None"
  by (simp add: sheet_pairs_def Let_def)

lemma length_cast_ids: "length (cast_ids xs) = length xs"
  by (simp add: cast_ids_def)

lemma length_id_cells: "length (id_cells sh) = length (data_rows sh)"
  by (simp add: id_cells_def)

lemma length_value_texts: "length (value_texts sh) \<le> length (data_rows sh)"
  by (simp add: value_texts_def value_cells_def)

lemma sheet_pairs_long:
  "length (dropna_all sh) \<ge> 2 \<Longrightarrow>
   sheet_pairs sh = Some (zip (cast_ids (id_cells sh)) (value_texts sh))"
  by (simp add: sheet_pairs_def Let_def id_cells_def value_texts_def value_cells_def data_rows_def)

lemma map_snd_pairs:
  "map snd (zip (cast_ids (id_cells sh)) (value_texts sh)) = value_texts sh"
proof -
  have "length (value_texts sh) \<le> length (cast_ids (id_cells sh))"
    using length_value_texts[of sh] by (simp add: length_cast_ids length_id_cells)
  then have "map snd (zip (cast_ids (id_cells sh)) (value_texts sh))
      = take (length (cast_ids (id_cells sh))) (value_texts sh)"
    by (simp add: map_snd_zip_take)
  then show ?thesis
    using \<open>length (value_texts sh) \<le> length (cast_ids (id_cells sh))\<close> by simp
qed

lemma no_blank_texts:
  "PNaN \<notin> set (value_cells sh) \<Longrightarrow>
   value_texts sh = map (\<lambda>c. py_strip (astype_str c)) (value_cells sh)"
proof -
  assume "PNaN \<notin> set (value_cells sh)"
  then have "filter (\<lambda>c. c \<noteq> PNaN) (value_cells sh) = value_cells sh"
    by (simp add: filter_id_conv) metis
  then show ?thesis by (simp add: value_texts_def)
qed

text \<open>
  Claim C8, as stated, fails: a sheet of a header and two data rows, the first with a blank
  label, yields one pair, not two.
\<close>

theorem concept_mapping_blank_label_counterexample:
  "length (dropna_all (snd (hd blank_label_workbook))) = 3
   \<and> excel_to_concept_mapping (Inr blank_label_workbook)
       = [(''Languages'', [(PInt 1, ''English'')])]"
  by code_simp

text \<open>
  Claim C8, amended.  A sheet with fewer than two rows left after the fully blank rows are
  removed, the header counted, has no entry in the vocabulary, and neither has a sheet
  whose data rows all have a blank label.  Every other sheet has one pair per data row whose
  label is not blank, in the order of the rows, the value of the pair being the label cast
  to a string and stripped; when no label is blank that is one pair per data row, each made
  of the identifier and the label of its row.
\<close>

theorem concept_mapping_sheet:
  assumes "distinct (map fst sheets)" and "(sheet, sh) \<in> set sheets"
  shows "(length (dropna_all sh) < 2
            \<longrightarrow> map_of (excel_to_concept_mapping (Inr sheets)) sheet = None)
       \<and> (2 \<le> length (dropna_all sh) \<and> value_texts sh = []
            \<longrightarrow> map_of (excel_to_concept_mapping (Inr sheets)) sheet = None)
       \<and> (2 \<le> length (dropna_all sh) \<and> value_texts sh \<noteq> []
            \<longrightarrow> (\<exists>pairs. map_of (excel_to_concept_mapping (Inr sheets)) sheet = Some pairs
                   \<and> map snd pairs = value_texts sh
                   \<and> length pairs \<le> length (data_rows sh)))
       \<and> (2 \<le> length (dropna_all sh) \<and> PNaN \<notin> set (value_cells sh)
            \<longrightarrow> (\<exists>pairs. map_of (excel_to_concept_mapping (Inr sheets)) sheet = Some pairs
                   \<and> pairs = zip (cast_ids (id_cells sh))
                                 (map (\<lambda>c. py_strip (astype_str c)) (value_cells sh))
                   \<and> length pairs = length (data_rows sh)))"
proof -
  note L = mapping_lookup[OF assms]
  have a: "length (dropna_all sh) < 2
            \<longrightarrow> map_of (excel_to_concept_mapping (Inr sheets)) sheet = None"
    using L by (simp add: sheet_pairs_short)
  have b: "2 \<le> length (dropna_all sh) \<and> value_texts sh = []
            \<longrightarrow> map_of (excel_to_concept_mapping (Inr sheets)) sheet = None"
    using L by (simp add: sheet_pairs_long)
  have c: "2 \<le> length (dropna_all sh) \<and> value_texts sh \<noteq> []
            \<longrightarrow> (\<exists>pairs. map_of (excel_to_concept_mapping (Inr sheets)) sheet = Some pairs
                   \<and> map snd pairs = value_texts sh
                   \<and> length pairs \<le> length (data_rows sh))"
  proof
    assume h: "2 \<le> length (dropna_all sh) \<and> value_texts sh \<noteq> []"
    let ?ps = "zip (cast_ids (id_cells sh)) (value_texts sh)"
    have m: "map snd ?ps = value_texts sh" by (rule map_snd_pairs)
    with h have ne: "?ps \<noteq> []" by auto
    have "map_of (excel_to_concept_mapping (Inr sheets)) sheet = Some ?ps"
      using L h ne by (simp add: sheet_pairs_long)
    moreover have "length ?ps \<le> length (data_rows sh)"
      using length_value_texts[of sh] by simp
    ultimately show "\<exists>pairs. map_of (excel_to_concept_mapping (Inr sheets)) sheet = Some pairs
                   \<and> map snd pairs = value_texts sh
                   \<and> length pairs \<le> length (data_rows sh)"
      using m by blast
  qed
  have d: "2 \<le> length (dropna_all sh) \<and> PNaN \<notin> set (value_cells sh)
            \<longrightarrow> (\<exists>pairs. map_of (excel_to_concept_mapping (Inr sheets)) sheet = Some pairs
                   \<and> pairs = zip (cast_ids (id_cells sh))
                                 (map (\<lambda>c. py_strip (astype_str c)) (value_cells sh))
                   \<and> length pairs = length (data_rows sh))"
  proof
    assume h: "2 \<le> length (dropna_all sh) \<and> PNaN \<notin> set (value_cells sh)"
    then have t: "value_texts sh = map (\<lambda>c. py_strip (astype_str c)) (value_cells sh)"
      by (simp add: no_blank_texts)
    have n: "length (data_rows sh) \<ge> 1" using h by (auto simp: data_rows_def)
    have lv: "length (value_texts sh) = length (data_rows sh)"
      unfolding t by (simp add: value_cells_def)
    let ?ps = "zip (cast_ids (id_cells sh)) (value_texts sh)"
    have len: "length ?ps = length (data_rows sh)"
      using lv by (simp add: length_cast_ids length_id_cells)
    with n have ne: "?ps \<noteq> []" by auto
    have "map_of (excel_to_concept_mapping (Inr sheets)) sheet = Some ?ps"
      using L h ne by (simp add: sheet_pairs_long)
    then show "\<exists>pairs. map_of (excel_to_concept_mapping (Inr sheets)) sheet = Some pairs
                   \<and> pairs = zip (cast_ids (id_cells sh))
                                 (map (\<lambda>c. py_strip (astype_str c)) (value_cells sh))
                   \<and> length pairs = length (data_rows sh)"
      using len t by simp
  qed
  show ?thesis using a b c d by (intro conjI)
qed

theorem concept_mapping_sheet_witness:
  "distinct (map fst example_workbook)
   \<and> map_of (excel_to_concept_mapping (Inr example_workbook)) ''Empty'' = None
   \<and> map_of (excel_to_concept_mapping (Inr example_workbook)) ''NoLabels'' = None
   \<and> (\<exists>pairs. map_of (excel_to_concept_mapping (Inr blank_label_workbook)) ''Languages'' = Some pairs
         \<and> map snd pairs = [''English''])
   \<and> map_of (excel_to_concept_mapping (Inr example_workbook)) ''Languages''
       = Some [(PInt 1, ''Hebrew''), (PInt 2, ''English'')]
   \<and> map_of (excel_to_concept_mapping (Inr example_workbook)) ''Single'' = Some [(PInt 7, ''City'')]"
proof -
  let ?L = "[[PStr ''id'', PStr ''name''], [PInt 1, PStr ''Hebrew''], [PNaN, PNaN],
             [PInt 2, PStr '' English '']]"
  let ?S = "[[PStr ''id'', PStr ''name''], [PInt 7, PStr ''City'']]"
  let ?E = "[[PStr ''id'', PStr ''name''], [PNaN, PNaN]]"
  let ?N = "[[PStr ''id'', PStr ''name''], [PInt 1, PNaN]]"
  let ?B = "[[PStr ''id'', PStr ''name''], [PInt 1, PNaN], [PInt 2, PStr '' English '']]"
  have d: "distinct (map fst example_workbook)" by (simp add: example_workbook_def)
  have db: "distinct (map fst blank_label_workbook)" by (simp add: blank_label_workbook_def)
  have mL: "(''Languages'', ?L) \<in> set example_workbook" by (simp add: example_workbook_def)
  have mS: "(''Single'', ?S) \<in> set example_workbook" by (simp add: example_workbook_def)
  have mE: "(''Empty'', ?E) \<in> set example_workbook" by (simp add: example_workbook_def)
  have mN: "(''NoLabels'', ?N) \<in> set example_workbook" by (simp add: example_workbook_def)
  have mB: "(''Languages'', ?B) \<in> set blank_label_workbook" by (simp add: blank_label_workbook_def)
  have hE: "length (dropna_all ?E) < 2" by code_simp
  have hN: "2 \<le> length (dropna_all ?N) \<and> value_texts ?N = []" by code_simp
  have hB: "2 \<le> length (dropna_all ?B) \<and> value_texts ?B \<noteq> []" by code_simp
  have vB: "value_texts ?B = [''English'']" by code_simp
  have hL: "2 \<le> length (dropna_all ?L) \<and> PNaN \<notin> set (value_cells ?L)" by code_simp
  have vL: "zip (cast_ids (id_cells ?L)) (map (\<lambda>c. py_strip (astype_str c)) (value_cells ?L))
      = [(PInt 1, ''Hebrew''), (PInt 2, ''English'')]" by code_simp
  have hS: "2 \<le> length (dropna_all ?S) \<and> PNaN \<notin> set (value_cells ?S)" by code_simp
  have vS: "zip (cast_ids (id_cells ?S)) (map (\<lambda>c. py_strip (astype_str c)) (value_cells ?S))
      = [(PInt 7, ''City'')]" by code_simp
  have e: "map_of (excel_to_concept_mapping (Inr example_workbook)) ''Empty'' = None"
    using concept_mapping_sheet[OF d mE] hE by blast
  have n: "map_of (excel_to_concept_mapping (Inr example_workbook)) ''NoLabels'' = None"
    using concept_mapping_sheet[OF d mN] hN by blast
  have b: "\<exists>pairs. map_of (excel_to_concept_mapping (Inr blank_label_workbook)) ''Languages'' = Some pairs
         \<and> map snd pairs = [''English'']"
  proof -
    from concept_mapping_sheet[OF db mB] hB
    have "\<exists>pairs. map_of (excel_to_concept_mapping (Inr blank_label_workbook)) ''Languages'' = Some pairs
         \<and> map snd pairs = value_texts ?B \<and> length pairs \<le> length (data_rows ?B)"
      by blast
    then obtain pairs where
      p1: "map_of (excel_to_concept_mapping (Inr blank_label_workbook)) ''Languages'' = Some pairs"
      and p2: "map snd pairs = value_texts ?B"
      by (elim exE conjE)
    from p2 vB have p3: "map snd pairs = [''English'']" by (rule trans)
    from p1 p3 show ?thesis by (intro exI conjI)
  qed
  have l: "map_of (excel_to_concept_mapping (Inr example_workbook)) ''Languages''
       = Some [(PInt 1, ''Hebrew''), (PInt 2, ''English'')]"
  proof -
    from concept_mapping_sheet[OF d mL] hL
    have "\<exists>pairs. map_of (excel_to_concept_mapping (Inr example_workbook)) ''Languages'' = Some pairs
         \<and> pairs = zip (cast_ids (id_cells ?L)) (map (\<lambda>c. py_strip (astype_str c)) (value_cells ?L))
         \<and> length pairs = length (data_rows ?L)"
      by blast
    then obtain pairs where
      p1: "map_of (excel_to_concept_mapping (Inr example_workbook)) ''Languages'' = Some pairs"
      and p2: "pairs = zip (cast_ids (id_cells ?L)) (map (\<lambda>c. py_strip (astype_str c)) (value_cells ?L))"
      by (elim exE conjE)
    show ?thesis unfolding p1 p2 vL by (rule refl)
  qed
  have s: "map_of (excel_to_concept_mapping (Inr example_workbook)) ''Single'' = Some [(PInt 7, ''City'')]"
  proof -
    from concept_mapping_sheet[OF d mS] hS
    have "\<exists>pairs. map_of (excel_to_concept_mapping (Inr example_workbook)) ''Single'' = Some pairs
         \<and> pairs = zip (cast_ids (id_cells ?S)) (map (\<lambda>c. py_strip (astype_str c)) (value_cells ?S))
         \<and> length pairs = length (data_rows ?S)"
      by blast
    then obtain pairs where
      p1: "map_of (excel_to_concept_mapping (Inr example_workbook)) ''Single'' = Some pairs"
      and p2: "pairs = zip (cast_ids (id_cells ?S)) (map (\<lambda>c. py_strip (astype_str c)) (value_cells ?S))"
      by (elim exE conjE)
    show ?thesis unfolding p1 p2 vS by (rule refl)
  qed
  show ?thesis using d e n b l s by (intro conjI)
qed

subsection \<open>The row built for a sheet\<close>


lemma add_concepts_distinct:
  "distinct (map fst row) \<Longrightarrow> distinct (map fst (add_concepts ed row cs))"
  by (induction ed row cs rule: add_concepts.induct) (auto simp: distinct_update)


lemma build_row_distinct: "distinct (map fst (build_row jd cs))"
  by (simp add: build_row_def add_concepts_distinct)



subsection \<open>One sheet\<close>

lemma overwrite_row_map_of:
  "distinct (map fst row) \<Longrightarrow>
   map_of (overwrite_row cols old row) c
     = (if c \<in> set cols \<and> c \<in> fst ` set row then map_of row c else map_of old c)"
proof (induction cols old row rule: overwrite_row.induct)
  case (1 cols old)
  then show ?case by simp
next
  case (2 cols old key v rest)
  then show ?case by (auto simp: update_conv' image_iff)
qed

lemma cell_overwrite_row:
  "distinct (map fst row) \<Longrightarrow>
   cell (overwrite_row cols old row) c
     = (if c \<in> set cols \<and> c \<in> fst ` set row then cell row c else cell old c)"
  by (simp add: cell_def overwrite_row_map_of)

lemma first_index_less: "x \<in> set xs \<Longrightarrow> first_index xs x < length xs"
  by (induction xs) auto

lemma first_index_nth: "x \<in> set xs \<Longrightarrow> xs ! first_index xs x = x"
  by (induction xs) auto

lemma first_index_first: "i < first_index xs x \<Longrightarrow> xs ! i \<noteq> x"
  by (induction xs arbitrary: i) (auto simp: nth_Cons split: if_splits nat.splits)


lemma upsert_found:
  assumes "''ID'' \<in> set (columns df)" and "fid \<in> set (id_column df)"
  shows "upsert_sheet fid row df
     = df\<lparr>rows := (rows df)[first_index (id_column df) fid
                     := overwrite_row (columns df) (rows df ! first_index (id_column df) fid) row]\<rparr>"
  using assms by (simp add: upsert_sheet_def Let_def)

lemma upsert_append:
  assumes "''ID'' \<notin> set (columns df) \<or> fid \<notin> set (id_column df)"
  shows "upsert_sheet fid row df = concat_row df row"
  using assms by (auto simp: upsert_sheet_def Let_def)





subsection \<open>The store\<close>




















text \<open>
  Claim C2, as stated, fails on its last part: the incoming row of a document that the
  sheet already holds carries the concept \<open>City\<close>, which the sheet does not have; the column
  is not added and the value is not stored.
\<close>

theorem upsert_found_new_column_counterexample:
  "''482'' \<in> set (id_column older_frame)
   \<and> cell (build_row doc_482_again (snd (hd example_mapping))) ''City'' = PStr ''Haifa''
   \<and> ''City'' \<notin> set (columns older_frame)
   \<and> snd (update_excel_with_json_data doc_482_again example_mapping (Some older_store))
       = Some [(''Personal'',
                \<lparr>columns = [''ID'', ''File Type'', ''Name'', ''Phone''],
                 rows = [[(''ID'', PStr ''7''), (''File Type'', PStr ''png''), (''Name'', PStr ''Noa''),
                          (''Phone'', PStr ''050'')],
                         [(''ID'', PStr ''482''), (''File Type'', PStr ''pdf''),
                          (''Name'', PStr ''Dana Levy''), (''Phone'', PStr ''052'')]]\<rparr>)]"
  by code_simp


text \<open>
  Claim C2, amended.  When the sheet has a row whose identifier, read as a string, is the
  incoming one, the upsert changes the first such row only, and in it only the columns that
  the incoming row supplies and the sheet already has; the columns of the sheet stay as
  they are, so none is dropped and none is added.  Otherwise the row is appended, and the
  columns of the row that the sheet lacks are added after the columns of the sheet.
\<close>

theorem upsert_found_overwrites_supplied_columns:
  "(''ID'' \<in> set (columns df) \<and> j_id jd \<in> set (id_column df) \<longrightarrow>
      columns (upsert_sheet (j_id jd) (build_row jd cs) df) = columns df
      \<and> length (rows (upsert_sheet (j_id jd) (build_row jd cs) df)) = length (rows df)
      \<and> first_index (id_column df) (j_id jd) < length (rows df)
      \<and> astype_str (cell (rows df ! first_index (id_column df) (j_id jd)) ''ID'') = j_id jd
      \<and> (\<forall>i. i \<noteq> first_index (id_column df) (j_id jd) \<longrightarrow>
             rows (upsert_sheet (j_id jd) (build_row jd cs) df) ! i = rows df ! i)
      \<and> (\<forall>c. cell (rows (upsert_sheet (j_id jd) (build_row jd cs) df)
                      ! first_index (id_column df) (j_id jd)) c
               = (if c \<in> set (columns df) \<and> c \<in> fst ` set (build_row jd cs)
                  then cell (build_row jd cs) c
                  else cell (rows df ! first_index (id_column df) (j_id jd)) c)))
   \<and> (''ID'' \<notin> set (columns df) \<or> j_id jd \<notin> set (id_column df) \<longrightarrow>
        columns (upsert_sheet (j_id jd) (build_row jd cs) df)
          = columns df @ filter (\<lambda>k. k \<notin> set (columns df)) (map fst (build_row jd cs))
        \<and> rows (upsert_sheet (j_id jd) (build_row jd cs) df) = rows df @ [build_row jd cs])"
proof -
  let ?i = "first_index (id_column df) (j_id jd)"
  let ?row = "build_row jd cs"
  have A: "''ID'' \<in> set (columns df) \<and> j_id jd \<in> set (id_column df) \<longrightarrow>
      columns (upsert_sheet (j_id jd) ?row df) = columns df
      \<and> length (rows (upsert_sheet (j_id jd) ?row df)) = length (rows df)
      \<and> ?i < length (rows df)
      \<and> astype_str (cell (rows df ! ?i) ''ID'') = j_id jd
      \<and> (\<forall>i. i \<noteq> ?i \<longrightarrow> rows (upsert_sheet (j_id jd) ?row df) ! i = rows df ! i)
      \<and> (\<forall>c. cell (rows (upsert_sheet (j_id jd) ?row df) ! ?i) c
               = (if c \<in> set (columns df) \<and> c \<in> fst ` set ?row
                  then cell ?row c else cell (rows df ! ?i) c))"
  proof
    assume "''ID'' \<in> set (columns df) \<and> j_id jd \<in> set (id_column df)"
    then have a: "''ID'' \<in> set (columns df)" and b: "j_id jd \<in> set (id_column df)" by simp_all
    note U = upsert_found[OF a b, of ?row]
    have lt: "?i < length (rows df)" using first_index_less[OF b] by (simp add: id_column_def)
    have idn: "astype_str (cell (rows df ! ?i) ''ID'') = j_id jd"
      using first_index_nth[OF b] lt by (simp add: id_column_def)
    have fr: "\<forall>i. i \<noteq> ?i \<longrightarrow> rows (upsert_sheet (j_id jd) ?row df) ! i = rows df ! i"
      by (simp add: U)
    have ce: "\<forall>c. cell (rows (upsert_sheet (j_id jd) ?row df) ! ?i) c
               = (if c \<in> set (columns df) \<and> c \<in> fst ` set ?row
                  then cell ?row c else cell (rows df ! ?i) c)"
      using lt by (simp add: U cell_overwrite_row[OF build_row_distinct])
    show "columns (upsert_sheet (j_id jd) ?row df) = columns df
      \<and> length (rows (upsert_sheet (j_id jd) ?row df)) = length (rows df)
      \<and> ?i < length (rows df)
      \<and> astype_str (cell (rows df ! ?i) ''ID'') = j_id jd
      \<and> (\<forall>i. i \<noteq> ?i \<longrightarrow> rows (upsert_sheet (j_id jd) ?row df) ! i = rows df ! i)
      \<and> (\<forall>c. cell (rows (upsert_sheet (j_id jd) ?row df) ! ?i) c
               = (if c \<in> set (columns df) \<and> c \<in> fst ` set ?row
                  then cell ?row c else cell (rows df ! ?i) c))"
      using lt idn fr ce by (simp add: U)
  qed
  have B: "''ID'' \<notin> set (columns df) \<or> j_id jd \<notin> set (id_column df) \<longrightarrow>
        columns (upsert_sheet (j_id jd) ?row df)
          = columns df @ filter (\<lambda>k. k \<notin> set (columns df)) (map fst ?row)
        \<and> rows (upsert_sheet (j_id jd) ?row df) = rows df @ [?row]"
    using upsert_append[of df "j_id jd" ?row] by (auto simp: concat_row_def)
  show ?thesis using A B by (rule conjI)
qed

theorem upsert_found_overwrites_supplied_columns_witness:
  "''ID'' \<in> set (columns older_frame) \<and> j_id doc_482_again \<in> set (id_column older_frame)
   \<and> columns (upsert_sheet ''482'' (build_row doc_482_again [(PInt 1, ''Name''), (PInt 2, ''City'')])
                 older_frame) = [''ID'', ''File Type'', ''Name'', ''Phone'']
   \<and> cell (rows (upsert_sheet ''482'' (build_row doc_482_again [(PInt 1, ''Name''), (PInt 2, ''City'')])
                 older_frame) ! 1) ''Name'' = PStr ''Dana Levy''
   \<and> cell (rows (upsert_sheet ''482'' (build_row doc_482_again [(PInt 1, ''Name''), (PInt 2, ''City'')])
                 older_frame) ! 1) ''Phone'' = PStr ''052''
   \<and> rows (upsert_sheet ''482'' (build_row doc_482_again [(PInt 1, ''Name''), (PInt 2, ''City'')])
                 older_frame) ! 0 = rows older_frame ! 0
   \<and> columns (upsert_sheet ''7'' (build_row doc_7 [(PInt 1, ''Name''), (PInt 2, ''City'')])
                 \<lparr>columns = [''ID'', ''File Type''], rows = []\<rparr>)
       = [''ID'', ''File Type'', ''Name'', ''City'']"
proof -
  let ?cs = "[(PInt 1, ''Name''), (PInt 2, ''City'')]"
  let ?e = "\<lparr>columns = [''ID'', ''File Type''], rows = []\<rparr>"
  have i3: "j_id doc_482_again = ''482''" by (simp add: doc_482_again_def)
  have i2: "j_id doc_7 = ''7''" by (simp add: doc_7_def)
  have h: "''ID'' \<in> set (columns older_frame) \<and> j_id doc_482_again \<in> set (id_column older_frame)"
    by code_simp
  have g: "''ID'' \<notin> set (columns ?e) \<or> j_id doc_7 \<notin> set (id_column ?e)"
    by (simp add: id_column_def)
  have fi: "first_index (id_column older_frame) ''482'' = 1" by code_simp
  have co: "columns older_frame = [''ID'', ''File Type'', ''Name'', ''Phone'']"
    by (simp add: older_frame_def)
  have n1: "(if ''Name'' \<in> set (columns older_frame) \<and> ''Name'' \<in> fst ` set (build_row doc_482_again ?cs)
             then cell (build_row doc_482_again ?cs) ''Name''
             else cell (rows older_frame ! 1) ''Name'') = PStr ''Dana Levy''"
    by code_simp
  have n2: "(if ''Phone'' \<in> set (columns older_frame) \<and> ''Phone'' \<in> fst ` set (build_row doc_482_again ?cs)
             then cell (build_row doc_482_again ?cs) ''Phone''
             else cell (rows older_frame ! 1) ''Phone'') = PStr ''052''"
    by code_simp
  have n3: "columns ?e @ filter (\<lambda>k. k \<notin> set (columns ?e)) (map fst (build_row doc_7 ?cs))
      = [''ID'', ''File Type'', ''Name'', ''City'']"
    by code_simp
  note T = upsert_found_overwrites_supplied_columns[of older_frame doc_482_again ?cs,
      unfolded i3 fi]
  note T' = upsert_found_overwrites_supplied_columns[of ?e doc_7 ?cs]
  from T h[unfolded i3] have
    c1: "columns (upsert_sheet ''482'' (build_row doc_482_again ?cs) older_frame) = columns older_frame"
    and c2: "\<forall>i. i \<noteq> 1 \<longrightarrow>
          rows (upsert_sheet ''482'' (build_row doc_482_again ?cs) older_frame) ! i = rows older_frame ! i"
    and c3: "\<forall>c. cell (rows (upsert_sheet ''482'' (build_row doc_482_again ?cs) older_frame) ! 1) c
        = (if c \<in> set (columns older_frame) \<and> c \<in> fst ` set (build_row doc_482_again ?cs)
           then cell (build_row doc_482_again ?cs) c else cell (rows older_frame ! 1) c)"
    by blast+
  from c2 have r0: "rows (upsert_sheet ''482'' (build_row doc_482_again ?cs) older_frame) ! 0
      = rows older_frame ! 0" by simp
  from T' g have c4: "columns (upsert_sheet (j_id doc_7) (build_row doc_7 ?cs) ?e)
      = columns ?e @ filter (\<lambda>k. k \<notin> set (columns ?e)) (map fst (build_row doc_7 ?cs))"
    by blast
  show ?thesis
    using conjunct1[OF h] conjunct2[OF h] c1[unfolded co] trans[OF spec[OF c3, of "''Name''"] n1]
      trans[OF spec[OF c3, of "''Phone''"] n2] r0 trans[OF c4 n3, unfolded i2]
    by (intro conjI)
qed

end
